theory Spec2Isabelle
  imports Complex_Main
begin

section \<open>Sales and package engine of the point-of-sale back office\<close>

text \<open>
  The development embeds the sales route handlers (\<^verbatim>\<open>src/app/api/sales/route.ts\<close>:
  \<^verbatim>\<open>GET\<close>, \<^verbatim>\<open>POST\<close>, \<^verbatim>\<open>PUT\<close>) and the price calculation of the sales page
  (\<^verbatim>\<open>src/app/dashboard/sales/page.tsx\<close>: \<^verbatim>\<open>calculateProgressivePrice\<close>).

  Modelling conventions.
  \<^item> A JavaScript number is an exact rational (\<^typ>\<open>rat\<close>): the rounding of IEEE doubles is
    not modelled. The one division of the handlers, which JavaScript never lets raise, returns
    a \<open>js_number\<close>, which has a value for the results that are not finite.
  \<^item> A string is the list of its UTF-16 code units. The texts of this application are
    Latin-1, whose code units are below 256 and fit a \<^typ>\<open>char\<close>.
  \<^item> The handlers are embedded for requests whose numeric fields are JSON numbers, the types
    the page declares for them; a field the handlers test for presence (\<^verbatim>\<open>!x\<close>,
    \<^verbatim>\<open>x || y\<close>, \<^verbatim>\<open>x !== undefined && x !== null\<close>) is an \<open>option\<close>, \<open>None\<close> standing
    for \<^verbatim>\<open>undefined\<close> and \<^verbatim>\<open>null\<close>. The statements that compute the discounts and the totals
    are embedded a second time on JSON values that are numbers or strings, since the sales
    page sends what its inputs hold, which are strings.
  \<^item> Row identifiers (UUID strings in the source) are natural numbers; the datastore hands
    out the next one from a counter.
  \<^item> The datastore behind \<^verbatim>\<open>query\<close> is a record of tables, each a list of rows in
    insertion order. \<^verbatim>\<open>INSERT\<close> appends, \<^verbatim>\<open>UPDATE ... WHERE\<close> maps, \<^verbatim>\<open>DELETE ... WHERE\<close>
    filters, \<^verbatim>\<open>ROLLBACK\<close> returns the state at \<^verbatim>\<open>BEGIN\<close>. Columns that no statement of the
    handler sets take the value 0, \<^verbatim>\<open>NULL\<close> or, for the timestamps, the time of the request;
    the schema's constraints are not part of the sources and are not modelled.
\<close>

type_synonym ident = nat
type_synonym timestamp = int

subsection \<open>JavaScript helpers\<close>

text \<open>\<^verbatim>\<open>String.prototype.startsWith\<close> and \<^verbatim>\<open>String.prototype.includes\<close>.\<close>

definition startsWith :: "string \<Rightarrow> string \<Rightarrow> bool" where
  "startsWith s t = (take (length t) s = t)"

fun includes_str :: "string \<Rightarrow> string \<Rightarrow> bool" where
  "includes_str [] t = (t = [])"
| "includes_str (c # cs) t = (startsWith (c # cs) t \<or> includes_str cs t)"

text \<open>
  \<^verbatim>\<open>String.prototype.toLowerCase\<close> on Latin-1: the letters A to Z and the accented capitals
  U+00C0 to U+00DE (but the multiplication sign U+00D7) move up by 32, every other code unit
  is kept.
\<close>

definition upper_letters :: string where
  "upper_letters =
     ''ABCDEFGHIJKLMNOPQRSTUVWXYZ'' @
     [CHR 0xC0, CHR 0xC1, CHR 0xC2, CHR 0xC3, CHR 0xC4, CHR 0xC5, CHR 0xC6, CHR 0xC7,
      CHR 0xC8, CHR 0xC9, CHR 0xCA, CHR 0xCB, CHR 0xCC, CHR 0xCD, CHR 0xCE, CHR 0xCF,
      CHR 0xD0, CHR 0xD1, CHR 0xD2, CHR 0xD3, CHR 0xD4, CHR 0xD5, CHR 0xD6, CHR 0xD8,
      CHR 0xD9, CHR 0xDA, CHR 0xDB, CHR 0xDC, CHR 0xDD, CHR 0xDE]"

definition lower_letters :: string where
  "lower_letters =
     ''abcdefghijklmnopqrstuvwxyz'' @
     [CHR 0xE0, CHR 0xE1, CHR 0xE2, CHR 0xE3, CHR 0xE4, CHR 0xE5, CHR 0xE6, CHR 0xE7,
      CHR 0xE8, CHR 0xE9, CHR 0xEA, CHR 0xEB, CHR 0xEC, CHR 0xED, CHR 0xEE, CHR 0xEF,
      CHR 0xF0, CHR 0xF1, CHR 0xF2, CHR 0xF3, CHR 0xF4, CHR 0xF5, CHR 0xF6, CHR 0xF8,
      CHR 0xF9, CHR 0xFA, CHR 0xFB, CHR 0xFC, CHR 0xFD, CHR 0xFE]"

definition lower_char :: "char \<Rightarrow> char" where
  "lower_char c =
     (case map_of (zip upper_letters lower_letters) c of
        None \<Rightarrow> c
      | Some l \<Rightarrow> l)"

definition toLowerCase :: "string \<Rightarrow> string" where
  "toLowerCase s = map lower_char s"

text \<open>\<^verbatim>\<open>x || d\<close> on a number: zero is falsy.\<close>

definition num_or :: "rat \<Rightarrow> rat \<Rightarrow> rat" where
  "num_or x d = (if x = 0 then d else x)"

text \<open>\<^verbatim>\<open>x || d\<close> and \<^verbatim>\<open>x > 0\<close> on a number that may be absent.\<close>

definition opt_num_or :: "rat option \<Rightarrow> rat \<Rightarrow> rat" where
  "opt_num_or x d = (case x of None \<Rightarrow> d | Some v \<Rightarrow> num_or v d)"

definition gt_zero :: "rat option \<Rightarrow> bool" where
  "gt_zero x = (case x of None \<Rightarrow> False | Some v \<Rightarrow> 0 < v)"

text \<open>\<^verbatim>\<open>s || null\<close> on a string that may be absent: the empty string is falsy.\<close>

definition str_or_null :: "string option \<Rightarrow> string option" where
  "str_or_null s = (if s = Some [] then None else s)"

definition truthy_str :: "string option \<Rightarrow> bool" where
  "truthy_str s = (s \<noteq> None \<and> s \<noteq> Some [])"

text \<open>Truthiness of an identifier field: absent, \<^verbatim>\<open>null\<close> and the empty string are \<open>None\<close>.\<close>

definition truthy_id :: "ident option \<Rightarrow> bool" where
  "truthy_id i = (i \<noteq> None)"

text \<open>The result of \<^verbatim>\<open>a / b\<close>: IEEE division does not raise. For a divisor that is zero the
  result is \<^verbatim>\<open>Infinity\<close>, \<^verbatim>\<open>-Infinity\<close> or \<^verbatim>\<open>NaN\<close>, by the sign of the dividend and of the
  zero; a rational has one zero, so the three are the one value \<open>NotFinite\<close>.\<close>

datatype js_number = Finite rat | NotFinite

definition js_div :: "rat \<Rightarrow> rat \<Rightarrow> js_number" where
  "js_div a b = (if b \<noteq> 0 then Finite (a / b) else NotFinite)"

subsection \<open>Pricing calculator (sales page)\<close>

text \<open>An element of \<^verbatim>\<open>Service.priceRanges\<close>.\<close>

record price_range =
  r_saleType :: string
  minQuantity :: rat
  maxQuantity :: "rat option"
  r_unitPrice :: rat

text \<open>
  \<^verbatim>\<open>ranges.filter((r) => r.saleType === saleType).sort((a, b) => a.minQuantity - b.minQuantity)\<close>;
  the sort of the array is stable.
\<close>

definition ranges_for :: "string \<Rightarrow> price_range list \<Rightarrow> price_range list" where
  "ranges_for saleType ranges =
     sort_key minQuantity (filter (\<lambda>r. r_saleType r = saleType) ranges)"

text \<open>\<^verbatim>\<open>applicableRanges[i]?.unitPrice || d\<close>.\<close>

definition rate_or :: "price_range list \<Rightarrow> nat \<Rightarrow> rat \<Rightarrow> rat" where
  "rate_or rs i d = (if i < length rs then num_or (r_unitPrice (rs ! i)) d else d)"

definition in_range :: "rat \<Rightarrow> price_range \<Rightarrow> bool" where
  "in_range qty r =
     (minQuantity r \<le> qty \<and> (case maxQuantity r of None \<Rightarrow> True | Some m \<Rightarrow> qty \<le> m))"

text \<open>
  \<^verbatim>\<open>calculateProgressivePrice(qty, serviceName, ranges)\<close>; the sale type of the form, which the
  callback closes over, is the first argument.
\<close>

definition calculateProgressivePrice ::
  "string \<Rightarrow> rat \<Rightarrow> string \<Rightarrow> price_range list \<Rightarrow> rat" where
  "calculateProgressivePrice saleType qty serviceName ranges =
     (let applicableRanges =
            (if ranges_for saleType ranges = [] then ranges_for ''01'' ranges
             else ranges_for saleType ranges)
      in if applicableRanges = [] then 0
         else if includes_str (toLowerCase serviceName) ''reclamacao'' then
           (if qty \<le> 10 then qty * rate_or applicableRanges 0 40
            else
              (let firstRangePrice = rate_or applicableRanges 0 40;
                   secondRangePrice = rate_or applicableRanges 1 15
               in (qty - 10) * secondRangePrice + 10 * firstRangePrice))
         else
           (case find (in_range qty) applicableRanges of
              None \<Rightarrow> 0
            | Some rng \<Rightarrow> qty * r_unitPrice rng))"

text \<open>The tiers of the scenario: 1 to 10 at 40, 11 and above at 15, for common sales.\<close>

definition complaint_tiers :: "price_range list" where
  "complaint_tiers =
     [\<lparr>r_saleType = ''01'', minQuantity = 1, maxQuantity = Some 10, r_unitPrice = 40\<rparr>,
      \<lparr>r_saleType = ''01'', minQuantity = 11, maxQuantity = None, r_unitPrice = 15\<rparr>]"

text \<open>The same two tiers in the other order, with a tier of package sales between them.\<close>

definition unsorted_tiers :: "price_range list" where
  "unsorted_tiers =
     [\<lparr>r_saleType = ''01'', minQuantity = 11, maxQuantity = None, r_unitPrice = 15\<rparr>,
      \<lparr>r_saleType = ''02'', minQuantity = 1, maxQuantity = None, r_unitPrice = 30\<rparr>,
      \<lparr>r_saleType = ''01'', minQuantity = 1, maxQuantity = Some 10, r_unitPrice = 40\<rparr>]"

text \<open>The name of the complaint service as the page's comment on the progressive price
  spells it: with c cedilla (U+00E7) and a tilde (U+00E3) where \<^verbatim>\<open>reclamacao\<close> has \<open>c\<close> and
  \<open>a\<close>.\<close>

definition complaint_name :: string where
  "complaint_name = ''Reclama'' @ [CHR 0xE7, CHR 0xE3] @ ''o''"

subsection \<open>Datastore\<close>

text \<open>The rows of \<^verbatim>\<open>users\<close>, \<^verbatim>\<open>clients\<close>, \<^verbatim>\<open>sales\<close>, \<^verbatim>\<open>sale_items\<close>, \<^verbatim>\<open>client_packages\<close>
  and \<^verbatim>\<open>package_consumptions\<close>, with the columns the handlers read or write. A column whose
  name occurs in two tables carries the table's initial.\<close>

record user_row =
  u_id :: ident
  first_name :: string
  last_name :: string
  email :: string
  is_admin :: bool

record client_row =
  c_id :: ident
  c_name :: string

record sale_row =
  s_id :: ident
  s_client_id :: "ident option"
  attendant_id :: ident
  sale_date :: timestamp
  observations :: "string option"
  status :: string
  payment_method :: "string option"
  general_discount_type :: "string option"
  general_discount_value :: rat
  s_subtotal :: rat
  total_discount :: rat
  s_total :: rat
  confirmed_at :: "timestamp option"
  cancelled_at :: "timestamp option"
  created_at :: timestamp
  updated_at :: timestamp

record sale_item_row =
  i_id :: ident
  sale_id :: ident
  product_id :: "ident option"
  product_name :: string
  i_quantity :: rat
  unit_price :: rat
  discount_type :: "string option"
  discount_value :: rat
  i_subtotal :: rat
  discount_amount :: rat
  i_total :: rat
  i_created_at :: timestamp

record package_row =
  p_id :: ident
  p_client_id :: "ident option"
  service_id :: ident
  p_sale_id :: ident
  initial_quantity :: rat
  consumed_quantity :: rat
  available_quantity :: rat
  p_unit_price :: js_number
  total_paid :: rat
  is_active :: bool

record consumption_row =
  pc_package_id :: ident
  pc_sale_id :: ident
  pc_quantity :: rat

record db =
  users :: "user_row list"
  clients :: "client_row list"
  sales :: "sale_row list"
  sale_items :: "sale_item_row list"
  client_packages :: "package_row list"
  package_consumptions :: "consumption_row list"
  next_id :: ident

subsection \<open>Requests and responses\<close>

text \<open>An element of \<^verbatim>\<open>items\<close> and the JSON body of \<^verbatim>\<open>POST\<close> and \<^verbatim>\<open>PUT\<close> (\<open>b_id\<close> is the
  field \<^verbatim>\<open>id\<close>, which only \<^verbatim>\<open>PUT\<close> reads).\<close>

record item_req =
  productId :: "ident option"
  productName :: string
  quantity :: rat
  unitPrice :: rat
  calculatedSubtotal :: "rat option"
  discountType :: "string option"
  discountValue :: "rat option"

record sale_body =
  b_id :: "ident option"
  clientId :: "ident option"
  observations_in :: "string option"
  paymentMethod :: "string option"
  items :: "item_req list option"
  generalDiscountType :: "string option"
  generalDiscountValue :: "rat option"
  saleType :: "string option"
  serviceId :: "ident option"
  packageId :: "ident option"

text \<open>What \<^verbatim>\<open>getTokenFromRequest\<close> and \<^verbatim>\<open>jwt.verify\<close> make of the request: no token, a token
  that does not verify, or the decoded \<^verbatim>\<open>userId\<close>.\<close>

datatype token = NoToken | BadToken | Decoded ident

text \<open>The objects \<^verbatim>\<open>GET\<close> returns.\<close>

record formatted_item =
  fi_id :: ident
  fi_productId :: "ident option"
  fi_productName :: string
  fi_quantity :: rat
  fi_unitPrice :: rat
  fi_discountType :: "string option"
  fi_discountValue :: rat
  fi_subtotal :: rat
  fi_discountAmount :: rat
  fi_total :: rat

record formatted_sale =
  f_id :: ident
  f_clientId :: "ident option"
  f_clientName :: string
  f_attendantId :: ident
  f_attendantName :: string
  f_saleDate :: timestamp
  f_observations :: "string option"
  f_status :: string
  f_paymentMethod :: "string option"
  f_generalDiscountType :: "string option"
  f_generalDiscountValue :: rat
  f_subtotal :: rat
  f_totalDiscount :: rat
  f_total :: rat
  f_confirmedAt :: "timestamp option"
  f_cancelledAt :: "timestamp option"
  f_createdAt :: timestamp
  f_updatedAt :: timestamp
  f_items :: "formatted_item list"

text \<open>The JSON of a response: an error message, the created sale (id, date, status, total,
  sale type) with its message, the message and total of an update, or the list of sales.\<close>

datatype payload =
    Error string
  | SaleCreated ident timestamp string rat "string option" string
  | SaleUpdated string rat
  | Sales "formatted_sale list"

type_synonym response = "nat \<times> payload"

subsection \<open>Authentication\<close>

text \<open>\<^verbatim>\<open>authenticateUser\<close>: \<open>Inl\<close> is the message of the error it throws.\<close>

definition authenticateUser :: "db \<Rightarrow> token \<Rightarrow> string + user_row" where
  "authenticateUser d t =
     (case t of
        NoToken \<Rightarrow> Inl ''Token de autenticacao nao informado''
      | BadToken \<Rightarrow> Inl ''Falha na autenticacao''
      | Decoded userId \<Rightarrow>
          (case find (\<lambda>u. u_id u = userId) (users d) of
             None \<Rightarrow> Inl ''Falha na autenticacao''
           | Some user \<Rightarrow> Inr user))"

text \<open>The status of the outer \<^verbatim>\<open>catch\<close>: \<^verbatim>\<open>message.includes("autenticacao") ? 401 : other\<close>.\<close>

definition catch_status :: "nat \<Rightarrow> string \<Rightarrow> nat" where
  "catch_status other message = (if includes_str message ''autenticacao'' then 401 else other)"

subsection \<open>Line items and discounts\<close>

text \<open>The definitions of this subsection are the statements of the handlers on items whose
  quantity, unit price, subtotal and discount value are JSON numbers, where \<^verbatim>\<open>+\<close> adds. The
  next subsection has the same statements on JSON values, where \<^verbatim>\<open>+\<close> may concatenate, and
  \<open>js_sale_params_numbers\<close> relates the two.\<close>

text \<open>\<^verbatim>\<open>calculatedSubtotal !== undefined && calculatedSubtotal !== null
  ? Number(calculatedSubtotal) : quantity * unitPrice\<close>.\<close>

definition item_subtotal :: "item_req \<Rightarrow> rat" where
  "item_subtotal item =
     (case calculatedSubtotal item of
        Some v \<Rightarrow> v
      | None \<Rightarrow> quantity item * unitPrice item)"

text \<open>The discount of a line and the general discount of a sale are the same statement, in
  both handlers: \<^verbatim>\<open>if (type === "percentage" && value > 0) amount = base * (value / 100);
  else if (type === "fixed" && value > 0) amount = value;\<close> starting from 0.\<close>

definition discountAmount :: "string option \<Rightarrow> rat option \<Rightarrow> rat \<Rightarrow> rat" where
  "discountAmount dtype dvalue base =
     (if dtype = Some ''percentage'' \<and> gt_zero dvalue then base * (opt_num_or dvalue 0 / 100)
      else if dtype = Some ''fixed'' \<and> gt_zero dvalue then opt_num_or dvalue 0
      else 0)"

definition item_discount :: "item_req \<Rightarrow> rat" where
  "item_discount item = discountAmount (discountType item) (discountValue item) (item_subtotal item)"

text \<open>The row of \<^verbatim>\<open>INSERT INTO sale_items\<close>.\<close>

definition new_item_row :: "ident \<Rightarrow> ident \<Rightarrow> timestamp \<Rightarrow> item_req \<Rightarrow> sale_item_row" where
  "new_item_row rid saleId now item =
     \<lparr>i_id = rid, sale_id = saleId, product_id = productId item,
      product_name = productName item, i_quantity = quantity item,
      unit_price = unitPrice item, discount_type = str_or_null (discountType item),
      discount_value = opt_num_or (discountValue item) 0,
      i_subtotal = item_subtotal item, discount_amount = item_discount item,
      i_total = item_subtotal item - item_discount item, i_created_at = now\<rparr>"

text \<open>The loop \<^verbatim>\<open>for (const item of items)\<close> of both handlers, with its two accumulators
  \<^verbatim>\<open>totalSubtotal\<close> and \<^verbatim>\<open>totalDiscountAmount\<close>.\<close>

fun insert_items ::
  "db \<Rightarrow> ident \<Rightarrow> timestamp \<Rightarrow> item_req list \<Rightarrow> rat \<Rightarrow> rat \<Rightarrow> db \<times> rat \<times> rat" where
  "insert_items d saleId now [] totalSubtotal totalDiscountAmount =
     (d, totalSubtotal, totalDiscountAmount)"
| "insert_items d saleId now (item # rest) totalSubtotal totalDiscountAmount =
     insert_items
       (d\<lparr>sale_items := sale_items d @ [new_item_row (next_id d) saleId now item],
          next_id := Suc (next_id d)\<rparr>)
       saleId now rest
       (totalSubtotal + item_subtotal item)
       (totalDiscountAmount + item_discount item)"

text \<open>\<^verbatim>\<open>UPDATE sales SET subtotal = $1, total_discount = $2, total = $3 WHERE id = $4\<close>.\<close>

definition update_totals :: "db \<Rightarrow> ident \<Rightarrow> rat \<Rightarrow> rat \<Rightarrow> rat \<Rightarrow> db" where
  "update_totals d saleId sub disc tot =
     d\<lparr>sales := map (\<lambda>s. if s_id s = saleId
                             then s\<lparr>s_subtotal := sub, total_discount := disc, s_total := tot\<rparr>
                             else s) (sales d)\<rparr>"

subsection \<open>The discounts and the totals on JSON values\<close>

text \<open>A field of a request item as the handler receives it: a JSON number or a JSON string.
  \<open>JNaN\<close> is the value \<^verbatim>\<open>NaN\<close> that arithmetic on a string that is no number produces. The two
  conversions of the language are parameters of the definitions below: \<open>tn s\<close> is the number
  the string \<open>s\<close> converts to (\<open>None\<close> when it converts to \<^verbatim>\<open>NaN\<close>), \<open>ts r\<close> the text of the
  number \<open>r\<close>. Other JSON values, and strings that convert to an infinite number, are not
  covered.\<close>

datatype js_value = JNum rat | JNaN | JStr string

definition to_num :: "(string \<Rightarrow> rat option) \<Rightarrow> js_value \<Rightarrow> rat option" where
  "to_num tn v = (case v of JNum r \<Rightarrow> Some r | JNaN \<Rightarrow> None | JStr s \<Rightarrow> tn s)"

definition of_num :: "rat option \<Rightarrow> js_value" where
  "of_num n = (case n of None \<Rightarrow> JNaN | Some r \<Rightarrow> JNum r)"

definition to_str :: "(rat \<Rightarrow> string) \<Rightarrow> js_value \<Rightarrow> string" where
  "to_str ts v = (case v of JNum r \<Rightarrow> ts r | JNaN \<Rightarrow> ''NaN'' | JStr s \<Rightarrow> s)"

definition is_str :: "js_value \<Rightarrow> bool" where
  "is_str v = (case v of JStr s \<Rightarrow> True | _ \<Rightarrow> False)"

text \<open>\<^verbatim>\<open>a * b\<close>, \<^verbatim>\<open>a - b\<close> and \<^verbatim>\<open>a / 100\<close> convert their operands to numbers; \<^verbatim>\<open>a + b\<close>
  concatenates the texts of its operands when one of them is a string and adds otherwise;
  \<^verbatim>\<open>a > 0\<close> compares the number \<open>a\<close> converts to, and is false for \<^verbatim>\<open>NaN\<close>.\<close>

definition js_arith ::
  "(rat \<Rightarrow> rat \<Rightarrow> rat) \<Rightarrow> (string \<Rightarrow> rat option) \<Rightarrow> js_value \<Rightarrow> js_value \<Rightarrow> js_value" where
  "js_arith f tn a b =
     (case to_num tn a of
        None \<Rightarrow> JNaN
      | Some x \<Rightarrow> (case to_num tn b of None \<Rightarrow> JNaN | Some y \<Rightarrow> JNum (f x y)))"

definition js_times :: "(string \<Rightarrow> rat option) \<Rightarrow> js_value \<Rightarrow> js_value \<Rightarrow> js_value" where
  "js_times = js_arith (\<lambda>x y. x * y)"

definition js_minus :: "(string \<Rightarrow> rat option) \<Rightarrow> js_value \<Rightarrow> js_value \<Rightarrow> js_value" where
  "js_minus = js_arith (\<lambda>x y. x - y)"

definition js_over_100 :: "(string \<Rightarrow> rat option) \<Rightarrow> js_value \<Rightarrow> js_value" where
  "js_over_100 tn a = js_arith (\<lambda>x y. x / y) tn a (JNum 100)"

definition js_plus ::
  "(string \<Rightarrow> rat option) \<Rightarrow> (rat \<Rightarrow> string) \<Rightarrow> js_value \<Rightarrow> js_value \<Rightarrow> js_value" where
  "js_plus tn ts a b =
     (if is_str a \<or> is_str b then JStr (to_str ts a @ to_str ts b)
      else js_arith (\<lambda>x y. x + y) tn a b)"

definition js_gt_zero :: "(string \<Rightarrow> rat option) \<Rightarrow> js_value \<Rightarrow> bool" where
  "js_gt_zero tn a = (case to_num tn a of None \<Rightarrow> False | Some x \<Rightarrow> 0 < x)"

text \<open>The fields of a request item that enter the amounts.\<close>

record json_item =
  j_quantity :: js_value
  j_unitPrice :: js_value
  j_calculatedSubtotal :: "js_value option"
  j_discountType :: "string option"
  j_discountValue :: "js_value option"

text \<open>The discount statement of both handlers, for a line and for the sale: an absent value
  compares false with 0 and leaves the amount 0; a fixed discount is the value as it came.\<close>

definition js_discount ::
  "(string \<Rightarrow> rat option) \<Rightarrow> string option \<Rightarrow> js_value option \<Rightarrow> js_value \<Rightarrow> js_value" where
  "js_discount tn dtype dvalue base =
     (case dvalue of
        None \<Rightarrow> JNum 0
      | Some v \<Rightarrow>
          if dtype = Some ''percentage'' \<and> js_gt_zero tn v
            then js_times tn base (js_over_100 tn v)
          else if dtype = Some ''fixed'' \<and> js_gt_zero tn v then v
          else JNum 0)"

text \<open>\<^verbatim>\<open>subtotal\<close> (with \<^verbatim>\<open>Number(calculatedSubtotal)\<close>), \<^verbatim>\<open>discountAmount\<close> and \<^verbatim>\<open>itemTotal\<close> of
  one turn of the loop.\<close>

definition js_item_subtotal :: "(string \<Rightarrow> rat option) \<Rightarrow> json_item \<Rightarrow> js_value" where
  "js_item_subtotal tn item =
     (case j_calculatedSubtotal item of
        Some v \<Rightarrow> of_num (to_num tn v)
      | None \<Rightarrow> js_times tn (j_quantity item) (j_unitPrice item))"

definition js_item_discount :: "(string \<Rightarrow> rat option) \<Rightarrow> json_item \<Rightarrow> js_value" where
  "js_item_discount tn item =
     js_discount tn (j_discountType item) (j_discountValue item) (js_item_subtotal tn item)"

definition js_item_total :: "(string \<Rightarrow> rat option) \<Rightarrow> json_item \<Rightarrow> js_value" where
  "js_item_total tn item = js_minus tn (js_item_subtotal tn item) (js_item_discount tn item)"

text \<open>The two accumulators of the loop, \<^verbatim>\<open>totalSubtotal += subtotal\<close> and
  \<^verbatim>\<open>totalDiscountAmount += discountAmount\<close>.\<close>

fun js_loop ::
  "(string \<Rightarrow> rat option) \<Rightarrow> (rat \<Rightarrow> string) \<Rightarrow> json_item list \<Rightarrow> js_value \<Rightarrow> js_value \<Rightarrow>
     js_value \<times> js_value" where
  "js_loop tn ts [] totalSubtotal totalDiscountAmount = (totalSubtotal, totalDiscountAmount)"
| "js_loop tn ts (item # rest) totalSubtotal totalDiscountAmount =
     js_loop tn ts rest
       (js_plus tn ts totalSubtotal (js_item_subtotal tn item))
       (js_plus tn ts totalDiscountAmount (js_item_discount tn item))"

text \<open>The three values both handlers bind to \<^verbatim>\<open>UPDATE sales SET subtotal = $1,
  total_discount = $2, total = $3\<close>: \<^verbatim>\<open>totalSubtotal\<close>,
  \<^verbatim>\<open>totalDiscountAmount + generalDiscountAmount\<close> and \<^verbatim>\<open>finalTotal\<close>.\<close>

definition js_sale_params ::
  "(string \<Rightarrow> rat option) \<Rightarrow> (rat \<Rightarrow> string) \<Rightarrow> json_item list \<Rightarrow> string option \<Rightarrow>
     js_value option \<Rightarrow> js_value \<times> js_value \<times> js_value" where
  "js_sale_params tn ts its gtype gvalue =
     (case js_loop tn ts its (JNum 0) (JNum 0) of
        (totalSubtotal, totalDiscountAmount) \<Rightarrow>
          (let generalDiscountAmount = js_discount tn gtype gvalue totalSubtotal;
               finalTotal =
                 js_minus tn (js_minus tn totalSubtotal totalDiscountAmount) generalDiscountAmount
           in (totalSubtotal, js_plus tn ts totalDiscountAmount generalDiscountAmount,
               finalTotal)))"

text \<open>A request item whose numeric fields are numbers, as a JSON item.\<close>

definition json_of_item :: "item_req \<Rightarrow> json_item" where
  "json_of_item item =
     \<lparr>j_quantity = JNum (quantity item), j_unitPrice = JNum (unitPrice item),
      j_calculatedSubtotal = map_option JNum (calculatedSubtotal item),
      j_discountType = discountType item,
      j_discountValue = map_option JNum (discountValue item)\<rparr>"

text \<open>The item the sales page sends for 15 units of a service with the progressive subtotal
  475 after the user has typed the quantity 15 and the fixed discount 50: the two inputs hold
  strings, the subtotal and the unit price are computed numbers.\<close>

definition typed_discount_item :: json_item where
  "typed_discount_item =
     \<lparr>j_quantity = JStr ''15'', j_unitPrice = JNum 15, j_calculatedSubtotal = Some (JNum 475),
      j_discountType = Some ''fixed'', j_discountValue = Some (JStr ''50'')\<rparr>"

subsection \<open>Package ledger\<close>

text \<open>\<^verbatim>\<open>INSERT INTO client_packages (...) VALUES ($1, $2, $3, $4, 0, $4, $5, $6, true)\<close>.\<close>

definition insert_package ::
  "db \<Rightarrow> ident option \<Rightarrow> ident \<Rightarrow> ident \<Rightarrow> rat \<Rightarrow> js_number \<Rightarrow> rat \<Rightarrow> db" where
  "insert_package d client service saleId totalQuantity unitPricePackage totalPaid =
     d\<lparr>client_packages := client_packages d @
          [\<lparr>p_id = next_id d, p_client_id = client, service_id = service, p_sale_id = saleId,
            initial_quantity = totalQuantity, consumed_quantity = 0,
            available_quantity = totalQuantity, p_unit_price = unitPricePackage,
            total_paid = totalPaid, is_active = True\<rparr>],
        next_id := Suc (next_id d)\<rparr>"

text \<open>Modelled from the spec: the stored function \<^verbatim>\<open>consume_package(package, sale, quantity)\<close>
  that \<^verbatim>\<open>POST\<close> calls is not among the sources. The specification of the package ledger reads:
  \<^emph>\<open>fails with InsufficientBalance if quantity > availableQuantity, or NotFound if the package
  doesn't exist/is inactive; on success increments consumedQuantity and decrements
  availableQuantity by quantity, recording the linkage to saleId\<close>. These are its two kinds of
  failure.\<close>

datatype ledger_error = NotFound | InsufficientBalance

text \<open>Modelled from the spec: the check and the write of \<^verbatim>\<open>consume_package\<close> on one package.\<close>

definition consume :: "package_row \<Rightarrow> rat \<Rightarrow> ledger_error + package_row" where
  "consume p q =
     (if \<not> is_active p then Inl NotFound
      else if available_quantity p < q then Inl InsufficientBalance
      else Inr (p\<lparr>consumed_quantity := consumed_quantity p + q,
                  available_quantity := available_quantity p - q\<rparr>))"

text \<open>Modelled from the spec: the lookup of the package by \<^verbatim>\<open>consume_package\<close>.\<close>

definition package_by_id :: "db \<Rightarrow> ident \<Rightarrow> package_row option" where
  "package_by_id d package = find (\<lambda>p. p_id p = package) (client_packages d)"

text \<open>Modelled from the spec: \<^verbatim>\<open>consume_package\<close> on the datastore. It fails when the package
  does not exist or \<open>consume\<close> fails; otherwise it writes the package back and records the
  consumption of the sale.\<close>

definition consume_package :: "db \<Rightarrow> ident \<Rightarrow> ident \<Rightarrow> rat \<Rightarrow> ledger_error + db" where
  "consume_package d package sale q =
     (case package_by_id d package of
        None \<Rightarrow> Inl NotFound
      | Some p \<Rightarrow>
          (case consume p q of
             Inl e \<Rightarrow> Inl e
           | Inr p' \<Rightarrow>
               Inr (d\<lparr>client_packages :=
                         map (\<lambda>r. if p_id r = package then p' else r) (client_packages d),
                       package_consumptions := package_consumptions d @
                         [\<lparr>pc_package_id = package, pc_sale_id = sale, pc_quantity = q\<rparr>]\<rparr>)))"

text \<open>Modelled from the spec: the message of the error \<^verbatim>\<open>consume_package\<close> raises, which
  \<^verbatim>\<open>POST\<close> reads as \<^verbatim>\<open>pkgError.message\<close>, is the name of the failure.\<close>

definition ledger_message :: "ledger_error \<Rightarrow> string" where
  "ledger_message e =
     (case e of NotFound \<Rightarrow> ''NotFound'' | InsufficientBalance \<Rightarrow> ''InsufficientBalance'')"

text \<open>A sequence of consume operations (package, sale, quantity): an operation that fails
  leaves the datastore as it was. \<open>consume_trace\<close> lists the state after each operation.\<close>

definition apply_consume :: "db \<Rightarrow> ident \<times> ident \<times> rat \<Rightarrow> db" where
  "apply_consume d c =
     (case c of (package, sale, q) \<Rightarrow>
        (case consume_package d package sale q of Inl e \<Rightarrow> d | Inr d' \<Rightarrow> d'))"

fun consume_trace :: "db \<Rightarrow> (ident \<times> ident \<times> rat) list \<Rightarrow> db list" where
  "consume_trace d [] = []"
| "consume_trace d (c # cs) = apply_consume d c # consume_trace (apply_consume d c) cs"

text \<open>The balance invariant of one package and of the ledger.\<close>

definition balance_ok :: "package_row \<Rightarrow> bool" where
  "balance_ok p =
     (0 \<le> available_quantity p \<and> initial_quantity p = consumed_quantity p + available_quantity p)"

definition ledger_ok :: "db \<Rightarrow> bool" where
  "ledger_ok d = list_all balance_ok (client_packages d)"

subsection \<open>POST: create a sale\<close>

text \<open>\<^verbatim>\<open>INSERT INTO sales (...) VALUES ($1, $2, CURRENT_TIMESTAMP, $3, $4, $5, $6, 'aberta')
  RETURNING id, sale_date\<close>; the new row's id is \<open>next_id d\<close>.\<close>

definition insert_sale :: "db \<Rightarrow> user_row \<Rightarrow> timestamp \<Rightarrow> sale_body \<Rightarrow> db" where
  "insert_sale d user now body =
     d\<lparr>sales := sales d @
          [\<lparr>s_id = next_id d, s_client_id = clientId body, attendant_id = u_id user,
            sale_date = now, observations = str_or_null (observations_in body),
            status = ''aberta'', payment_method = paymentMethod body,
            general_discount_type = str_or_null (generalDiscountType body),
            general_discount_value = opt_num_or (generalDiscountValue body) 0,
            s_subtotal = 0, total_discount = 0, s_total = 0,
            confirmed_at = None, cancelled_at = None, created_at = now, updated_at = now\<rparr>],
        next_id := Suc (next_id d)\<rparr>"

text \<open>The transaction of \<^verbatim>\<open>POST\<close>, between \<^verbatim>\<open>BEGIN\<close> and \<^verbatim>\<open>COMMIT\<close>, for a validated body with
  items \<open>its\<close>. \<open>Inl\<close> is the message of an error thrown inside, \<open>Inr\<close> the response and the
  committed state. The value of \<^verbatim>\<open>saleType === "02" && serviceId\<close> is the service when the
  sale type is 02 and falsy otherwise, and likewise for \<^verbatim>\<open>saleType === "03" && packageId\<close>;
  \<^verbatim>\<open>items[0]\<close> of an empty array is \<^verbatim>\<open>undefined\<close>, whose \<^verbatim>\<open>quantity\<close> cannot be read.\<close>

definition create_sale ::
  "db \<Rightarrow> user_row \<Rightarrow> timestamp \<Rightarrow> sale_body \<Rightarrow> item_req list \<Rightarrow> string + (response \<times> db)" where
  "create_sale d user now body its =
     (let saleId = next_id d;
          d1 = insert_sale d user now body
      in case insert_items d1 saleId now its 0 0 of
        (d2, totalSubtotal, totalDiscountAmount) \<Rightarrow>
          (let generalDiscountAmount =
                 discountAmount (generalDiscountType body) (generalDiscountValue body) totalSubtotal;
               finalTotal = totalSubtotal - totalDiscountAmount - generalDiscountAmount;
               d3 = update_totals d2 saleId totalSubtotal
                      (totalDiscountAmount + generalDiscountAmount) finalTotal;
               created = (201, SaleCreated saleId now ''aberta'' finalTotal (saleType body)
                                 ''Venda criada com sucesso'')
           in case (if saleType body = Some ''02'' then serviceId body else None) of
                Some service \<Rightarrow>
                  (case its of
                     [] \<Rightarrow> Inl ''Cannot read properties of undefined''
                   | firstItem # _ \<Rightarrow>
                       (let totalQuantity = quantity firstItem;
                            totalPaid = finalTotal;
                            unitPricePackage = js_div totalPaid totalQuantity
                        in Inr (created,
                                insert_package d3 (clientId body) service saleId totalQuantity
                                  unitPricePackage totalPaid)))
              | None \<Rightarrow>
                  (case (if saleType body = Some ''03'' then packageId body else None) of
                     Some package \<Rightarrow>
                       (case its of
                          [] \<Rightarrow> Inl ''Cannot read properties of undefined''
                        | firstItem # _ \<Rightarrow>
                            (case consume_package d3 package saleId (quantity firstItem) of
                               Inl e \<Rightarrow> Inl (''Erro ao consumir pacote: '' @ ledger_message e)
                             | Inr d4 \<Rightarrow> Inr (created, d4)))
                   | None \<Rightarrow> Inr (created, d3))))"

text \<open>\<^verbatim>\<open>POST\<close>: authentication, the four validations, then the transaction; an error thrown
  inside it rolls back to the state before \<^verbatim>\<open>BEGIN\<close>.\<close>

definition POST :: "db \<Rightarrow> token \<Rightarrow> timestamp \<Rightarrow> sale_body \<Rightarrow> response \<times> db" where
  "POST d t now body =
     (case authenticateUser d t of
        Inl message \<Rightarrow> ((catch_status 400 message, Error message), d)
      | Inr user \<Rightarrow>
          if \<not> truthy_id (clientId body) then ((400, Error ''Cliente e obrigatorio''), d)
          else if \<not> truthy_str (paymentMethod body)
            then ((400, Error ''Metodo de pagamento e obrigatorio''), d)
          else
            (case items body of
               None \<Rightarrow> ((400, Error ''A venda deve ter pelo menos um item''), d)
             | Some its \<Rightarrow>
                 if its = [] then ((400, Error ''A venda deve ter pelo menos um item''), d)
                 else if saleType body = Some ''03'' \<and> \<not> truthy_id (packageId body)
                   then ((400, Error ''Package ID obrigatorio para consumo de pacote''), d)
                 else
                   (case create_sale d user now body its of
                      Inl message \<Rightarrow> ((catch_status 400 message, Error message), d)
                    | Inr committed \<Rightarrow> committed)))"

subsection \<open>PUT: update an open sale\<close>

text \<open>\<^verbatim>\<open>UPDATE sales SET client_id = $1, observations = $2, payment_method = $3,
  general_discount_type = $4, general_discount_value = $5 WHERE id = $6\<close>.\<close>

definition update_header :: "db \<Rightarrow> ident \<Rightarrow> sale_body \<Rightarrow> db" where
  "update_header d saleId body =
     d\<lparr>sales := map (\<lambda>s. if s_id s = saleId
                             then s\<lparr>s_client_id := clientId body,
                                    observations := str_or_null (observations_in body),
                                    payment_method := paymentMethod body,
                                    general_discount_type := str_or_null (generalDiscountType body),
                                    general_discount_value :=
                                      opt_num_or (generalDiscountValue body) 0\<rparr>
                             else s) (sales d)\<rparr>"

text \<open>\<^verbatim>\<open>DELETE FROM sale_items WHERE sale_id = $1\<close>.\<close>

definition delete_items :: "db \<Rightarrow> ident \<Rightarrow> db" where
  "delete_items d saleId = d\<lparr>sale_items := filter (\<lambda>i. sale_id i \<noteq> saleId) (sale_items d)\<rparr>"

text \<open>The transaction of \<^verbatim>\<open>PUT\<close>; iterating over an absent \<^verbatim>\<open>items\<close> throws.\<close>

definition update_sale ::
  "db \<Rightarrow> timestamp \<Rightarrow> ident \<Rightarrow> sale_body \<Rightarrow> string + (response \<times> db)" where
  "update_sale d now saleId body =
     (let d1 = delete_items (update_header d saleId body) saleId
      in case items body of
           None \<Rightarrow> Inl ''items is not iterable''
         | Some its \<Rightarrow>
             (case insert_items d1 saleId now its 0 0 of
                (d2, totalSubtotal, totalDiscountAmount) \<Rightarrow>
                  (let generalDiscountAmount =
                         discountAmount (generalDiscountType body) (generalDiscountValue body)
                           totalSubtotal;
                       finalTotal = totalSubtotal - totalDiscountAmount - generalDiscountAmount
                   in Inr ((200, SaleUpdated ''Venda atualizada com sucesso'' finalTotal),
                           update_totals d2 saleId totalSubtotal
                             (totalDiscountAmount + generalDiscountAmount) finalTotal))))"

text \<open>\<^verbatim>\<open>SELECT id, attendant_id, status FROM sales WHERE id = $1\<close> and \<^verbatim>\<open>saleCheck.rows[0]\<close>;
  \<open>None\<close> is \<^verbatim>\<open>saleCheck.rowCount === 0\<close>.\<close>

definition sale_by_id :: "db \<Rightarrow> ident \<Rightarrow> sale_row option" where
  "sale_by_id d saleId = find (\<lambda>s. s_id s = saleId) (sales d)"

definition PUT :: "db \<Rightarrow> token \<Rightarrow> timestamp \<Rightarrow> sale_body \<Rightarrow> response \<times> db" where
  "PUT d t now body =
     (case authenticateUser d t of
        Inl message \<Rightarrow> ((catch_status 400 message, Error message), d)
      | Inr user \<Rightarrow>
          (case b_id body of
             None \<Rightarrow> ((400, Error ''ID da venda e obrigatorio''), d)
           | Some saleId \<Rightarrow>
               (case sale_by_id d saleId of
                  None \<Rightarrow> ((404, Error ''Venda nao encontrada''), d)
                | Some sale \<Rightarrow>
                    if status sale \<noteq> ''aberta''
                      then ((400, Error ''Apenas vendas abertas podem ser editadas''), d)
                    else if \<not> is_admin user \<and> attendant_id sale \<noteq> u_id user
                      then ((403, Error ''Voce nao tem permissao para editar esta venda''), d)
                    else
                      (case update_sale d now saleId body of
                         Inl message \<Rightarrow> ((catch_status 400 message, Error message), d)
                       | Inr committed \<Rightarrow> committed))))"

subsection \<open>GET: list sales\<close>

text \<open>\<^verbatim>\<open>FROM sales s JOIN clients c ON s.client_id = c.id JOIN users u ON s.attendant_id = u.id\<close>,
  the \<^verbatim>\<open>WHERE\<close> clause (empty for an administrator, \<^verbatim>\<open>s.attendant_id = $1\<close> otherwise) and
  \<^verbatim>\<open>ORDER BY s.sale_date DESC\<close>, rows of equal date in table order. \<open>join_row\<close> is the join
  of one sale with its client and its attendant.\<close>

definition join_row :: "db \<Rightarrow> sale_row \<Rightarrow> (sale_row \<times> client_row \<times> user_row) list" where
  "join_row d s =
     [(s, c, u). c \<leftarrow> clients d, s_client_id s = Some (c_id c),
                 u \<leftarrow> users d, attendant_id s = u_id u]"

definition joined_sales :: "db \<Rightarrow> (sale_row \<times> client_row \<times> user_row) list" where
  "joined_sales d = concat (map (join_row d) (sales d))"

definition select_sales :: "db \<Rightarrow> user_row \<Rightarrow> (sale_row \<times> client_row \<times> user_row) list" where
  "select_sales d user =
     sort_key (\<lambda>(s, c, u). - sale_date s)
       (filter (\<lambda>(s, c, u). is_admin user \<or> attendant_id s = u_id user) (joined_sales d))"

text \<open>\<^verbatim>\<open>SELECT ... FROM sale_items WHERE sale_id = $1 ORDER BY created_at\<close>.\<close>

definition items_of :: "db \<Rightarrow> ident \<Rightarrow> sale_item_row list" where
  "items_of d saleId = sort_key i_created_at (filter (\<lambda>i. sale_id i = saleId) (sale_items d))"

definition format_item :: "sale_item_row \<Rightarrow> formatted_item" where
  "format_item item =
     \<lparr>fi_id = i_id item, fi_productId = product_id item, fi_productName = product_name item,
      fi_quantity = i_quantity item, fi_unitPrice = unit_price item,
      fi_discountType = discount_type item, fi_discountValue = discount_value item,
      fi_subtotal = i_subtotal item, fi_discountAmount = discount_amount item,
      fi_total = i_total item\<rparr>"

definition format_sale :: "db \<Rightarrow> sale_row \<times> client_row \<times> user_row \<Rightarrow> formatted_sale" where
  "format_sale d row =
     (case row of (sale, c, u) \<Rightarrow>
        \<lparr>f_id = s_id sale, f_clientId = s_client_id sale, f_clientName = c_name c,
         f_attendantId = attendant_id sale,
         f_attendantName = first_name u @ '' '' @ last_name u,
         f_saleDate = sale_date sale, f_observations = observations sale,
         f_status = status sale, f_paymentMethod = payment_method sale,
         f_generalDiscountType = general_discount_type sale,
         f_generalDiscountValue = general_discount_value sale,
         f_subtotal = s_subtotal sale, f_totalDiscount = total_discount sale,
         f_total = s_total sale, f_confirmedAt = confirmed_at sale,
         f_cancelledAt = cancelled_at sale, f_createdAt = created_at sale,
         f_updatedAt = updated_at sale,
         f_items = map format_item (items_of d (s_id sale))\<rparr>)"

definition GET :: "db \<Rightarrow> token \<Rightarrow> response" where
  "GET d t =
     (case authenticateUser d t of
        Inl message \<Rightarrow> (catch_status 500 message, Error message)
      | Inr user \<Rightarrow> (200, Sales (map (format_sale d) (select_sales d user))))"

subsection \<open>Closed forms and predicates of the statements\<close>

text \<open>The rows the item loop inserts, the first with identifier \<open>n\<close>.\<close>

fun item_rows :: "ident \<Rightarrow> ident \<Rightarrow> timestamp \<Rightarrow> item_req list \<Rightarrow> sale_item_row list" where
  "item_rows n saleId now [] = []"
| "item_rows n saleId now (item # rest) =
     new_item_row n saleId now item # item_rows (Suc n) saleId now rest"

text \<open>The values of \<^verbatim>\<open>generalDiscountAmount\<close> and \<^verbatim>\<open>finalTotal\<close> after the loop.\<close>

definition general_discount :: "sale_body \<Rightarrow> item_req list \<Rightarrow> rat" where
  "general_discount body its =
     discountAmount (generalDiscountType body) (generalDiscountValue body)
       (sum_list (map item_subtotal its))"

definition final_total :: "sale_body \<Rightarrow> item_req list \<Rightarrow> rat" where
  "final_total body its =
     sum_list (map item_subtotal its) - sum_list (map item_discount its) - general_discount body its"

text \<open>The stored totals of a sale row reconcile with its stored items and its stored general
  discount.\<close>

definition reconciled :: "db \<Rightarrow> sale_row \<Rightarrow> bool" where
  "reconciled d s =
     (s_subtotal s = sum_list (map i_subtotal (items_of d (s_id s)))
      \<and> total_discount s =
          sum_list (map discount_amount (items_of d (s_id s)))
          + discountAmount (general_discount_type s) (Some (general_discount_value s)) (s_subtotal s)
      \<and> s_total s = s_subtotal s - total_discount s)"

text \<open>The identifier the datastore hands out next is not in use: a primary key is new.\<close>

definition unused_id :: "db \<Rightarrow> bool" where
  "unused_id d =
     (list_all (\<lambda>s. s_id s \<noteq> next_id d) (sales d)
      \<and> list_all (\<lambda>i. sale_id i \<noteq> next_id d) (sale_items d))"

text \<open>Primary keys of clients and users are unique, and every sale refers to a client and to
  an attendant that exist: the foreign keys of \<^verbatim>\<open>sales\<close>.\<close>

definition ref_ok :: "db \<Rightarrow> bool" where
  "ref_ok d =
     (distinct (map c_id (clients d)) \<and> distinct (map u_id (users d))
      \<and> list_all (\<lambda>s. s_client_id s \<in> set (map (\<lambda>c. Some (c_id c)) (clients d))
                       \<and> attendant_id s \<in> set (map u_id (users d))) (sales d))"

text \<open>The sales of a response, and the stored rows of one sale.\<close>

definition listed :: "response \<Rightarrow> formatted_sale list" where
  "listed r = (case snd r of Sales fs \<Rightarrow> fs | _ \<Rightarrow> [])"

definition sale_rows :: "db \<Rightarrow> ident \<Rightarrow> sale_row list" where
  "sale_rows d saleId = filter (\<lambda>s. s_id s = saleId) (sales d)"

subsection \<open>Example data\<close>

text \<open>An administrator (1) and two attendants (2, 3); one client; an open sale of attendant 2
  and a confirmed package sale of attendant 3; the package of 10 credits bought for 500, of
  which 3 are consumed.\<close>

definition demo_db :: db where
  "demo_db =
     \<lparr>users =
        [\<lparr>u_id = 1, first_name = ''Ana'', last_name = ''Lima'', email = ''ana@loja'',
          is_admin = True\<rparr>,
         \<lparr>u_id = 2, first_name = ''Bia'', last_name = ''Reis'', email = ''bia@loja'',
          is_admin = False\<rparr>,
         \<lparr>u_id = 3, first_name = ''Caio'', last_name = ''Melo'', email = ''caio@loja'',
          is_admin = False\<rparr>],
      clients = [\<lparr>c_id = 10, c_name = ''Cliente Um''\<rparr>],
      sales =
        [\<lparr>s_id = 20, s_client_id = Some 10, attendant_id = 2, sale_date = 5,
          observations = None, status = ''aberta'', payment_method = Some ''pix'',
          general_discount_type = None, general_discount_value = 0,
          s_subtotal = 100, total_discount = 0, s_total = 100,
          confirmed_at = None, cancelled_at = None, created_at = 5, updated_at = 5\<rparr>,
         \<lparr>s_id = 21, s_client_id = Some 10, attendant_id = 3, sale_date = 7,
          observations = None, status = ''confirmada'', payment_method = Some ''dinheiro'',
          general_discount_type = None, general_discount_value = 0,
          s_subtotal = 500, total_discount = 0, s_total = 500,
          confirmed_at = Some 8, cancelled_at = None, created_at = 7, updated_at = 8\<rparr>],
      sale_items =
        [\<lparr>i_id = 40, sale_id = 20, product_id = None, product_name = ''Atraso'',
          i_quantity = 1, unit_price = 100, discount_type = None, discount_value = 0,
          i_subtotal = 100, discount_amount = 0, i_total = 100, i_created_at = 5\<rparr>,
         \<lparr>i_id = 41, sale_id = 21, product_id = None, product_name = ''Reclamacao'',
          i_quantity = 10, unit_price = 50, discount_type = None, discount_value = 0,
          i_subtotal = 500, discount_amount = 0, i_total = 500, i_created_at = 7\<rparr>],
      client_packages =
        [\<lparr>p_id = 30, p_client_id = Some 10, service_id = 50, p_sale_id = 21,
          initial_quantity = 10, consumed_quantity = 3, available_quantity = 7,
          p_unit_price = Finite 50, total_paid = 500, is_active = True\<rparr>],
      package_consumptions = [],
      next_id = 100\<rparr>"

text \<open>A line of 5 units with the page's subtotal 200 and a discount of 10 per cent, in a
  request with a fixed general discount of 20: the total is 200 - 20 - 20 = 160.\<close>

definition demo_item :: item_req where
  "demo_item =
     \<lparr>productId = None, productName = ''Atraso'', quantity = 5, unitPrice = 40,
      calculatedSubtotal = Some 200, discountType = Some ''percentage'',
      discountValue = Some 10\<rparr>"

definition demo_body :: sale_body where
  "demo_body =
     \<lparr>b_id = Some 20, clientId = Some 10, observations_in = None, paymentMethod = Some ''pix'',
      items = Some [demo_item], generalDiscountType = Some ''fixed'',
      generalDiscountValue = Some 20, saleType = Some ''01'', serviceId = None,
      packageId = None\<rparr>"

text \<open>Two lines without discounts: one carries the page's progressive subtotal 475 for 15
  units (15 times its unit price would be 225), the other carries no subtotal.\<close>

definition mixed_items :: "item_req list" where
  "mixed_items =
     [\<lparr>productId = None, productName = ''Reclamacao'', quantity = 15, unitPrice = 15,
       calculatedSubtotal = Some 475, discountType = None, discountValue = None\<rparr>,
      \<lparr>productId = None, productName = ''Atraso'', quantity = 2, unitPrice = 30,
       calculatedSubtotal = None, discountType = None, discountValue = None\<rparr>]"

definition mixed_body :: sale_body where
  "mixed_body =
     demo_body\<lparr>items := Some mixed_items, generalDiscountType := None,
                generalDiscountValue := None\<rparr>"

text \<open>A package consumption of 2 credits of package 30 whose line carries a fixed discount
  of 30, which the sales page never sends for this sale type.\<close>

definition consumption_item :: item_req where
  "consumption_item =
     \<lparr>productId = None, productName = ''Reclamacao'', quantity = 2, unitPrice = 50,
      calculatedSubtotal = Some 100, discountType = Some ''fixed'', discountValue = Some 30\<rparr>"

definition consumption_body :: sale_body where
  "consumption_body =
     \<lparr>b_id = Some 20, clientId = Some 10, observations_in = None, paymentMethod = Some ''pix'',
      items = Some [consumption_item], generalDiscountType = Some ''percentage'',
      generalDiscountValue = Some 0, saleType = Some ''03'', serviceId = Some 50,
      packageId = Some 30\<rparr>"

text \<open>The same consumption asking for 8 credits, one more than the 7 available.\<close>

definition over_consumption_body :: sale_body where
  "over_consumption_body =
     consumption_body\<lparr>items := Some [consumption_item\<lparr>quantity := 8\<rparr>]\<rparr>"

text \<open>A common sale of one unit at 40 with a fixed discount of 50, and the general discount
  the sales page always sends (percentage, 0).\<close>

definition overdiscount_item :: item_req where
  "overdiscount_item =
     \<lparr>productId = None, productName = ''Atraso'', quantity = 1, unitPrice = 40,
      calculatedSubtotal = Some 40, discountType = Some ''fixed'', discountValue = Some 50\<rparr>"

definition overdiscount_body :: sale_body where
  "overdiscount_body =
     demo_body\<lparr>items := Some [overdiscount_item], generalDiscountType := Some ''percentage'',
                generalDiscountValue := Some 0\<rparr>"

text \<open>The package consumption as the sales page sends it: discount type percentage, value 0.\<close>

definition page_consumption_body :: sale_body where
  "page_consumption_body =
     consumption_body
       \<lparr>items := Some [consumption_item\<lparr>discountType := Some ''percentage'',
                                        discountValue := Some 0\<rparr>]\<rparr>"

text \<open>Package sales of service 50: one whose first item has quantity -2, one whose first item
  has quantity 0, and one of 10 credits for 500 that carries no \<^verbatim>\<open>serviceId\<close>.\<close>

definition package_item :: "rat \<Rightarrow> rat option \<Rightarrow> item_req" where
  "package_item q sub =
     \<lparr>productId = None, productName = ''Reclamacao'', quantity = q, unitPrice = 40,
      calculatedSubtotal = sub, discountType = Some ''percentage'', discountValue = Some 0\<rparr>"

definition package_body :: "item_req \<Rightarrow> ident option \<Rightarrow> sale_body" where
  "package_body item service =
     \<lparr>b_id = None, clientId = Some 10, observations_in = None, paymentMethod = Some ''pix'',
      items = Some [item], generalDiscountType = Some ''percentage'',
      generalDiscountValue = Some 0, saleType = Some ''02'', serviceId = service,
      packageId = None\<rparr>"

definition negative_package_body :: sale_body where
  "negative_package_body = package_body (package_item (- 2) None) (Some 50)"

definition zero_package_body :: sale_body where
  "zero_package_body = package_body (package_item 0 (Some 500)) (Some 50)"

definition no_service_body :: sale_body where
  "no_service_body = package_body (package_item 10 (Some 500)) None"

definition ten_credits_body :: sale_body where
  "ten_credits_body = package_body (package_item 10 (Some 500)) (Some 50)"

section \<open>Progressive pricing\<close>

lemma lower_complaint_name: "toLowerCase complaint_name = ''reclama'' @ [CHR 0xE7, CHR 0xE3] @ ''o''"
  by (simp add: toLowerCase_def complaint_name_def lower_char_def upper_letters_def
      lower_letters_def)

lemma complaint_name_missed: "\<not> includes_str (toLowerCase complaint_name) ''reclamacao''"
  by (simp add: lower_complaint_name startsWith_def)

lemma ascii_name_found: "includes_str (toLowerCase ''Reclamacao'') ''reclamacao''"
  by (simp add: toLowerCase_def lower_char_def upper_letters_def lower_letters_def
      startsWith_def)

lemma ranges_for_tiers:
  "ranges_for ''01'' complaint_tiers = complaint_tiers"
  "ranges_for ''02'' complaint_tiers = []"
  "ranges_for ''01'' unsorted_tiers = complaint_tiers"
  by (simp_all add: ranges_for_def complaint_tiers_def unsorted_tiers_def)

text \<open>
  C8. The progressive price is reached only by a name that contains \<^verbatim>\<open>reclamacao\<close> without
  diacritics. For the tiers 1 to 10 at 40 and 11 and above at 15 and quantity 15, the service
  named with c cedilla and a tilde, as the page's own comment names it, is priced by the plain
  tier lookup at 15 * 15 = 225, where the claim and the comment ask for the two brackets
  10 * 40 + 5 * 15 = 475; the name written without diacritics gets 475. Both hold as well when
  the tiers arrive unsorted and mixed with a tier of another sale type.
\<close>

theorem progressive_price_misses_accented_name:
  "toLowerCase complaint_name = ''reclama'' @ [CHR 0xE7, CHR 0xE3] @ ''o''
   \<and> calculateProgressivePrice ''01'' 15 complaint_name complaint_tiers = 225
   \<and> calculateProgressivePrice ''01'' 15 complaint_name unsorted_tiers = 225
   \<and> calculateProgressivePrice ''01'' 15 ''Reclamacao'' complaint_tiers = 10 * 40 + 5 * 15
   \<and> calculateProgressivePrice ''01'' 15 ''Reclamacao'' complaint_tiers = 475
   \<and> calculateProgressivePrice ''01'' 15 ''Reclamacao'' unsorted_tiers = 475
   \<and> calculateProgressivePrice ''02'' 15 ''Reclamacao'' complaint_tiers = 475"
proof (intro conjI)
  show "toLowerCase complaint_name = ''reclama'' @ [CHR 0xE7, CHR 0xE3] @ ''o''"
    by (rule lower_complaint_name)
  show "calculateProgressivePrice ''01'' 15 complaint_name complaint_tiers = 225"
    by (simp add: calculateProgressivePrice_def complaint_name_missed ranges_for_tiers)
      (simp add: complaint_tiers_def in_range_def)
  show "calculateProgressivePrice ''01'' 15 complaint_name unsorted_tiers = 225"
    by (simp add: calculateProgressivePrice_def complaint_name_missed ranges_for_tiers)
      (simp add: complaint_tiers_def in_range_def)
  show "calculateProgressivePrice ''01'' 15 ''Reclamacao'' complaint_tiers = 10 * 40 + 5 * 15"
    by (simp add: calculateProgressivePrice_def ascii_name_found ranges_for_tiers)
      (simp add: complaint_tiers_def rate_or_def num_or_def)
  show "calculateProgressivePrice ''01'' 15 ''Reclamacao'' complaint_tiers = 475"
    by (simp add: calculateProgressivePrice_def ascii_name_found ranges_for_tiers)
      (simp add: complaint_tiers_def rate_or_def num_or_def)
  show "calculateProgressivePrice ''01'' 15 ''Reclamacao'' unsorted_tiers = 475"
    by (simp add: calculateProgressivePrice_def ascii_name_found ranges_for_tiers)
      (simp add: complaint_tiers_def rate_or_def num_or_def)
  show "calculateProgressivePrice ''02'' 15 ''Reclamacao'' complaint_tiers = 475"
    by (simp add: calculateProgressivePrice_def ascii_name_found ranges_for_tiers)
      (simp add: complaint_tiers_def rate_or_def num_or_def)
qed

section \<open>The item loop and the two transactions\<close>

lemma insert_items_eq:
  "insert_items d saleId now its ts td =
     (d\<lparr>sale_items := sale_items d @ item_rows (next_id d) saleId now its,
        next_id := next_id d + length its\<rparr>,
      ts + sum_list (map item_subtotal its),
      td + sum_list (map item_discount its))"
  by (induction its arbitrary: d ts td) (simp_all add: algebra_simps)

lemma item_rows_subtotal: "map i_subtotal (item_rows n saleId now its) = map item_subtotal its"
  by (induction its arbitrary: n) (simp_all add: new_item_row_def)

lemma item_rows_discount: "map discount_amount (item_rows n saleId now its) = map item_discount its"
  by (induction its arbitrary: n) (simp_all add: new_item_row_def)

lemma item_rows_sale_id: "filter (\<lambda>i. sale_id i = saleId) (item_rows n saleId now its) = item_rows n saleId now its"
  by (induction its arbitrary: n) (simp_all add: new_item_row_def)

lemma sum_list_insort_key: "sum_list (map f (insort_key k x xs)) = (f x :: rat) + sum_list (map f xs)"
  by (induction xs) simp_all

lemma sum_list_sort_key: "sum_list (map f (sort_key k xs)) = (sum_list (map f xs) :: rat)"
  by (induction xs) (simp_all add: sum_list_insort_key)

lemma discountAmount_stored:
  "discountAmount (str_or_null ty) (Some (opt_num_or v 0)) base = discountAmount ty v base"
  by (cases v) (auto simp: discountAmount_def str_or_null_def opt_num_or_def num_or_def gt_zero_def)


lemma consume_package_frame:
  "consume_package d p s q = Inr d' \<Longrightarrow>
     sales d' = sales d \<and> sale_items d' = sale_items d \<and> users d' = users d
     \<and> clients d' = clients d \<and> next_id d' = next_id d"
  by (auto simp: consume_package_def split: option.splits sum.splits)

lemma create_sale_sales:
  "create_sale d user now body its = Inr (r, d') \<Longrightarrow>
     sales d' = sales (update_totals (insert_sale d user now body) (next_id d)
                  (sum_list (map item_subtotal its))
                  (sum_list (map item_discount its) + general_discount body its)
                  (final_total body its))"
  by (auto simp: create_sale_def insert_items_eq Let_def update_totals_def insert_sale_def
        insert_package_def general_discount_def final_total_def
      dest!: consume_package_frame
      split: option.splits list.splits sum.splits if_splits)

lemma create_sale_items:
  "create_sale d user now body its = Inr (r, d') \<Longrightarrow>
     sale_items d' = sale_items d @ item_rows (Suc (next_id d)) (next_id d) now its"
  by (auto simp: create_sale_def insert_items_eq Let_def update_totals_def insert_sale_def
        insert_package_def
      dest!: consume_package_frame
      split: option.splits list.splits sum.splits if_splits)

lemma create_sale_response:
  "create_sale d user now body its = Inr (r, d') \<Longrightarrow>
     r = (201, SaleCreated (next_id d) now ''aberta'' (final_total body its) (saleType body)
                 ''Venda criada com sucesso'')"
  by (auto simp: create_sale_def insert_items_eq Let_def general_discount_def final_total_def
      split: option.splits list.splits sum.splits if_splits)

lemma update_sale_sales:
  "update_sale d now saleId body = Inr (r, d') \<Longrightarrow> items body = Some its \<Longrightarrow>
     sales d' = sales (update_totals (update_header d saleId body) saleId
                  (sum_list (map item_subtotal its))
                  (sum_list (map item_discount its) + general_discount body its)
                  (final_total body its))"
  by (auto simp: update_sale_def insert_items_eq Let_def update_totals_def update_header_def
        delete_items_def general_discount_def final_total_def
      split: option.splits)

lemma update_sale_items:
  "update_sale d now saleId body = Inr (r, d') \<Longrightarrow> items body = Some its \<Longrightarrow>
     sale_items d' = filter (\<lambda>i. sale_id i \<noteq> saleId) (sale_items d)
                     @ item_rows (next_id d) saleId now its"
  by (auto simp: update_sale_def insert_items_eq Let_def update_totals_def update_header_def
        delete_items_def
      split: option.splits)

lemma update_sale_response:
  "update_sale d now saleId body = Inr (r, d') \<Longrightarrow> items body = Some its \<Longrightarrow>
     r = (200, SaleUpdated ''Venda atualizada com sucesso'' (final_total body its))"
  by (auto simp: update_sale_def insert_items_eq Let_def general_discount_def final_total_def
      split: option.splits)



lemma catch_status_not_success: "catch_status 400 m \<noteq> 201" "catch_status 400 m \<noteq> 200"
  by (simp_all add: catch_status_def)

lemma POST_created:
  "POST d t now body = ((201, p), d') \<Longrightarrow>
     \<exists>user its. authenticateUser d t = Inr user \<and> items body = Some its \<and> its \<noteq> []
        \<and> truthy_id (clientId body) \<and> truthy_str (paymentMethod body)
        \<and> create_sale d user now body its = Inr ((201, p), d')"
  by (auto simp: POST_def catch_status_not_success split: sum.splits option.splits if_splits)

lemma PUT_updated:
  "PUT d t now body = ((200, p), d') \<Longrightarrow>
     \<exists>user saleId sale. authenticateUser d t = Inr user \<and> b_id body = Some saleId
        \<and> sale_by_id d saleId = Some sale \<and> status sale = ''aberta''
        \<and> (is_admin user \<or> attendant_id sale = u_id user)
        \<and> update_sale d now saleId body = Inr ((200, p), d')"
  by (auto simp: PUT_def catch_status_not_success split: sum.splits option.splits if_splits)

lemma filter_fresh_items:
  "\<forall>i \<in> set xs. sale_id i \<noteq> n \<Longrightarrow> filter (\<lambda>i. sale_id i = n) xs = []"
  by (induction xs) simp_all

lemma created_reconciled:
  assumes c: "create_sale d user now body its = Inr (r, d')" and u: "unused_id d"
    and s: "s \<in> set (sales d')" "s_id s = next_id d"
  shows "reconciled d' s \<and> s_total s = final_total body its"
proof -
  have items: "items_of d' (next_id d) =
      sort_key i_created_at (item_rows (Suc (next_id d)) (next_id d) now its)"
    using u by (simp add: items_of_def create_sale_items [OF c] unused_id_def list_all_iff
        filter_fresh_items item_rows_sale_id)
  from s u have row: "s = \<lparr>s_id = next_id d, s_client_id = clientId body, attendant_id = u_id user,
            sale_date = now, observations = str_or_null (observations_in body),
            status = ''aberta'', payment_method = paymentMethod body,
            general_discount_type = str_or_null (generalDiscountType body),
            general_discount_value = opt_num_or (generalDiscountValue body) 0,
            s_subtotal = sum_list (map item_subtotal its),
            total_discount = sum_list (map item_discount its) + general_discount body its,
            s_total = final_total body its,
            confirmed_at = None, cancelled_at = None, created_at = now, updated_at = now\<rparr>"
    by (auto simp: create_sale_sales [OF c] update_totals_def insert_sale_def unused_id_def list_all_iff)
  show ?thesis
    unfolding reconciled_def
    by (simp add: row items sum_list_sort_key item_rows_subtotal item_rows_discount
        discountAmount_stored general_discount_def final_total_def)
qed

lemma created_row_exists:
  assumes c: "create_sale d user now body its = Inr (r, d')"
  shows "\<exists>s \<in> set (sales d'). s_id s = next_id d"
  by (simp add: create_sale_sales [OF c] update_totals_def insert_sale_def)

lemma updated_reconciled:
  assumes c: "update_sale d now saleId body = Inr (r, d')" and its: "items body = Some its"
    and s: "s \<in> set (sales d')" "s_id s = saleId"
  shows "reconciled d' s \<and> s_total s = final_total body its"
proof -
  have items: "items_of d' saleId = sort_key i_created_at (item_rows (next_id d) saleId now its)"
    by (simp add: items_of_def update_sale_items [OF c its] item_rows_sale_id)
  from s obtain s0 where row: "s = s0\<lparr>s_client_id := clientId body,
        observations := str_or_null (observations_in body),
        payment_method := paymentMethod body,
        general_discount_type := str_or_null (generalDiscountType body),
        general_discount_value := opt_num_or (generalDiscountValue body) 0,
        s_subtotal := sum_list (map item_subtotal its),
        total_discount := sum_list (map item_discount its) + general_discount body its,
        s_total := final_total body its\<rparr>"
    by (auto simp: update_sale_sales [OF c its] update_totals_def update_header_def
        split: if_splits)
  from s(2) row have sid: "s_id s0 = saleId" by simp
  show ?thesis
    unfolding reconciled_def
    by (simp add: row sid items sum_list_sort_key item_rows_subtotal item_rows_discount
        discountAmount_stored general_discount_def final_total_def)
qed

section \<open>Facts about the example data\<close>

lemma demo_fields:
  "next_id demo_db = 100"
  "users demo_db = [\<lparr>u_id = 1, first_name = ''Ana'', last_name = ''Lima'', email = ''ana@loja'',
          is_admin = True\<rparr>,
         \<lparr>u_id = 2, first_name = ''Bia'', last_name = ''Reis'', email = ''bia@loja'',
          is_admin = False\<rparr>,
         \<lparr>u_id = 3, first_name = ''Caio'', last_name = ''Melo'', email = ''caio@loja'',
          is_admin = False\<rparr>]"
  "map s_id (sales demo_db) = [20, 21]"
  "map sale_id (sale_items demo_db) = [20, 21]"
  by (simp_all add: demo_db_def)

lemma demo_unused: "unused_id demo_db"
  by (simp add: unused_id_def demo_db_def)

lemma demo_auth:
  "authenticateUser demo_db (Decoded 1) = Inr \<lparr>u_id = 1, first_name = ''Ana'', last_name = ''Lima'', email = ''ana@loja'', is_admin = True\<rparr>"
  "authenticateUser demo_db (Decoded 2) = Inr \<lparr>u_id = 2, first_name = ''Bia'', last_name = ''Reis'', email = ''bia@loja'', is_admin = False\<rparr>"
  "authenticateUser demo_db (Decoded 3) = Inr \<lparr>u_id = 3, first_name = ''Caio'', last_name = ''Melo'', email = ''caio@loja'', is_admin = False\<rparr>"
  by (simp_all add: authenticateUser_def demo_db_def)

section \<open>Stored rows of a sale\<close>

lemma find_SomeD: "find P xs = Some x \<Longrightarrow> x \<in> set xs \<and> P x"
  by (induction xs) (auto split: if_splits)

lemma sale_rows_nonempty: "sale_rows d saleId \<noteq> [] \<longleftrightarrow> saleId \<in> set (map s_id (sales d))"
  by (auto simp: sale_rows_def filter_empty_conv)

lemma update_sale_ids:
  "update_sale d now saleId body = Inr (r, d') \<Longrightarrow> map s_id (sales d') = map s_id (sales d)"
  by (auto simp: update_sale_def insert_items_eq Let_def update_totals_def update_header_def
      delete_items_def split: option.splits)

lemma updated_row_exists:
  assumes c: "update_sale d now saleId body = Inr (r, d')" and f: "sale_by_id d saleId = Some sale"
  shows "sale_rows d' saleId \<noteq> []"
proof -
  from find_SomeD [OF f [unfolded sale_by_id_def]] have "saleId \<in> set (map s_id (sales d))"
    by auto
  then show ?thesis
    by (simp only: sale_rows_nonempty update_sale_ids [OF c])
qed

lemma pair_fst_snd: "fst x = a \<Longrightarrow> x = (a, snd x)"
  by (simp add: prod_eq_iff)

lemma demo_body_id: "b_id demo_body = Some 20"
  by (simp add: demo_body_def)

section \<open>Stored totals on JSON values\<close>

lemma js_discount_numbers:
  "js_discount tn dtype (map_option JNum dvalue) (JNum base) = JNum (discountAmount dtype dvalue base)"
  by (cases dvalue)
    (simp_all add: js_discount_def discountAmount_def js_gt_zero_def gt_zero_def to_num_def
      js_times_def js_over_100_def js_arith_def opt_num_or_def num_or_def)

lemma js_item_numbers:
  "js_item_subtotal tn (json_of_item item) = JNum (item_subtotal item)"
  "js_item_discount tn (json_of_item item) = JNum (item_discount item)"
  "js_item_total tn (json_of_item item) = JNum (item_subtotal item - item_discount item)"
proof -
  show s: "js_item_subtotal tn (json_of_item item) = JNum (item_subtotal item)"
    by (cases "calculatedSubtotal item")
      (simp_all add: js_item_subtotal_def json_of_item_def item_subtotal_def to_num_def
        of_num_def js_times_def js_arith_def)
  have "j_discountType (json_of_item item) = discountType item"
    "j_discountValue (json_of_item item) = map_option JNum (discountValue item)"
    by (simp_all add: json_of_item_def)
  then show d: "js_item_discount tn (json_of_item item) = JNum (item_discount item)"
    by (simp add: js_item_discount_def s js_discount_numbers item_discount_def)
  show "js_item_total tn (json_of_item item) = JNum (item_subtotal item - item_discount item)"
    by (simp add: js_item_total_def s d js_minus_def js_arith_def to_num_def)
qed

lemma js_plus_numbers: "js_plus tn ts (JNum a) (JNum b) = JNum (a + b)"
  by (simp add: js_plus_def is_str_def js_arith_def to_num_def)

lemma js_loop_numbers:
  "js_loop tn ts (map json_of_item its) (JNum a) (JNum b) =
     (JNum (a + sum_list (map item_subtotal its)), JNum (b + sum_list (map item_discount its)))"
  by (induction its arbitrary: a b)
    (simp_all add: js_item_numbers js_plus_numbers algebra_simps)

lemma js_sale_params_numbers:
  "js_sale_params tn ts (map json_of_item its) (generalDiscountType body)
       (map_option JNum (generalDiscountValue body)) =
     (JNum (sum_list (map item_subtotal its)),
      JNum (sum_list (map item_discount its) + general_discount body its),
      JNum (final_total body its))"
  by (simp add: js_sale_params_def js_loop_numbers js_discount_numbers js_plus_numbers
      js_minus_def js_arith_def to_num_def general_discount_def final_total_def Let_def)

text \<open>
  C3. The stored totals do not reconcile for what the sales page sends. A fixed discount
  typed into the form arrives as the string 50. For the item of 15 units with subtotal 475 the
  handlers bind the item discount 50 and the item total 425, and, the accumulated discount
  being the text of 0 followed by 50, bind subtotal 475, total discount 0500 and total 425 to
  the sale: the total discount is not the sum of the item discounts and of the general
  discount, which is 50, and the total is not the subtotal minus the total discount. The
  three facts about the conversions of the language that the computation uses are the
  hypotheses.
\<close>

theorem string_discount_totals:
  "ToNumber ''50'' = Some 50 \<longrightarrow> ToNumber ''050'' = Some 50 \<longrightarrow> ToString 0 = ''0'' \<longrightarrow>
     js_item_subtotal ToNumber typed_discount_item = JNum 475
     \<and> js_item_discount ToNumber typed_discount_item = JStr ''50''
     \<and> js_item_total ToNumber typed_discount_item = JNum 425
     \<and> js_sale_params ToNumber ToString [typed_discount_item] (Some ''percentage'')
           (Some (JNum 0)) =
         (JNum 475, JStr ''0500'', JNum 425)"
proof (intro impI)
  assume n: "ToNumber ''50'' = Some 50" "ToNumber ''050'' = Some 50" and s: "ToString 0 = ''0''"
  have sub: "js_item_subtotal ToNumber typed_discount_item = JNum 475"
    by (simp add: js_item_subtotal_def typed_discount_item_def to_num_def of_num_def)
  have disc: "js_item_discount ToNumber typed_discount_item = JStr ''50''"
    by (simp add: js_item_discount_def sub js_discount_def js_gt_zero_def to_num_def n)
      (simp add: typed_discount_item_def js_gt_zero_def to_num_def n)
  have tot: "js_item_total ToNumber typed_discount_item = JNum 425"
    by (simp add: js_item_total_def sub disc js_minus_def js_arith_def to_num_def n)
  have loop: "js_loop ToNumber ToString [typed_discount_item] (JNum 0) (JNum 0) =
      (JNum 475, JStr ''050'')"
    by (simp add: sub disc js_plus_def is_str_def js_arith_def to_num_def to_str_def s)
  have "js_sale_params ToNumber ToString [typed_discount_item] (Some ''percentage'')
           (Some (JNum 0)) =
         (JNum 475, JStr ''0500'', JNum 425)"
    unfolding js_sale_params_def loop
    by (simp add: js_discount_def js_gt_zero_def to_num_def js_minus_def
        js_arith_def n js_plus_def is_str_def to_str_def s)
  with sub disc tot
  show "js_item_subtotal ToNumber typed_discount_item = JNum 475
     \<and> js_item_discount ToNumber typed_discount_item = JStr ''50''
     \<and> js_item_total ToNumber typed_discount_item = JNum 425
     \<and> js_sale_params ToNumber ToString [typed_discount_item] (Some ''percentage'')
           (Some (JNum 0)) =
         (JNum 475, JStr ''0500'', JNum 425)"
    by (intro conjI)
qed

theorem string_discount_totals_witness:
  "(\<lambda>s. if s = ''50'' then Some 50 else if s = ''050'' then Some 50 else None) ''50'' = Some (50::rat)
   \<and> (\<lambda>s. if s = ''50'' then Some 50 else if s = ''050'' then Some 50 else None) ''050''
       = Some (50::rat)
   \<and> (\<lambda>r::rat. ''0'') 0 = ''0''
   \<and> js_sale_params
       (\<lambda>s. if s = ''50'' then Some 50 else if s = ''050'' then Some 50 else None)
       (\<lambda>r. ''0'') [typed_discount_item] (Some ''percentage'') (Some (JNum 0)) =
         (JNum 475, JStr ''0500'', JNum 425)"
proof -
  have "js_sale_params
       (\<lambda>s. if s = ''50'' then Some 50 else if s = ''050'' then Some 50 else None)
       (\<lambda>r. ''0'') [typed_discount_item] (Some ''percentage'') (Some (JNum 0)) =
         (JNum 475, JStr ''0500'', JNum 425)"
    by (rule string_discount_totals [rule_format, THEN conjunct2, THEN conjunct2, THEN conjunct2])
      simp_all
  then show ?thesis by simp
qed

section \<open>Stored items\<close>

lemma insort_key_const: "\<forall>y \<in> set xs. k y = k x \<Longrightarrow> insort_key k x xs = x # xs"
  by (cases xs) simp_all

lemma sort_key_const: "\<forall>x \<in> set xs. k x = c \<Longrightarrow> sort_key k xs = xs"
  by (induction xs) (simp_all add: insort_key_const)

lemma item_rows_created: "\<forall>i \<in> set (item_rows n saleId now its). i_created_at i = now"
  by (induction its arbitrary: n) (simp_all add: new_item_row_def)

lemma created_items_of:
  assumes c: "create_sale d user now body its = Inr (r, d')" and u: "unused_id d"
  shows "items_of d' (next_id d) = item_rows (Suc (next_id d)) (next_id d) now its"
  using u
  by (simp add: items_of_def create_sale_items [OF c] unused_id_def list_all_iff
      filter_fresh_items item_rows_sale_id sort_key_const [OF item_rows_created])

lemma updated_items_of:
  assumes c: "update_sale d now saleId body = Inr (r, d')" and its: "items body = Some its"
  shows "items_of d' saleId = item_rows (next_id d) saleId now its"
  by (simp add: items_of_def update_sale_items [OF c its] item_rows_sale_id
      sort_key_const [OF item_rows_created])

lemma item_subtotal_cases:
  "item_subtotal = (\<lambda>item. case calculatedSubtotal item of
                              None \<Rightarrow> quantity item * unitPrice item | Some v \<Rightarrow> v)"
  by (rule ext) (simp add: item_subtotal_def split: option.splits)

text \<open>
  C9. In a sale that \<^verbatim>\<open>POST\<close> creates and in a sale that \<^verbatim>\<open>PUT\<close> updates, the stored subtotal
  of each item is the request item's \<^verbatim>\<open>calculatedSubtotal\<close> when that field is present, and
  quantity times unit price only when it is absent or null; the sale's stored subtotal is the
  sum of these values.
\<close>

theorem calculated_subtotal_verbatim:
  "(fst (POST d t now body) = (201, p) \<longrightarrow> unused_id d \<longrightarrow> items body = Some its \<longrightarrow>
      map i_subtotal (items_of (snd (POST d t now body)) (next_id d)) =
        map (\<lambda>item. case calculatedSubtotal item of
                       None \<Rightarrow> quantity item * unitPrice item | Some v \<Rightarrow> v) its
      \<and> list_all (\<lambda>s. s_subtotal s =
              sum_list (map (\<lambda>item. case calculatedSubtotal item of
                               None \<Rightarrow> quantity item * unitPrice item | Some v \<Rightarrow> v) its))
            (sale_rows (snd (POST d t now body)) (next_id d)))
   \<and> (fst (PUT d t now body) = (200, p) \<longrightarrow> b_id body = Some saleId \<longrightarrow> items body = Some its \<longrightarrow>
      map i_subtotal (items_of (snd (PUT d t now body)) saleId) =
        map (\<lambda>item. case calculatedSubtotal item of
                       None \<Rightarrow> quantity item * unitPrice item | Some v \<Rightarrow> v) its
      \<and> list_all (\<lambda>s. s_subtotal s =
              sum_list (map (\<lambda>item. case calculatedSubtotal item of
                               None \<Rightarrow> quantity item * unitPrice item | Some v \<Rightarrow> v) its))
            (sale_rows (snd (PUT d t now body)) saleId))"
proof (intro conjI impI)
  define d' where "d' = snd (POST d t now body)"
  assume f: "fst (POST d t now body) = (201, p)" and u: "unused_id d" and i: "items body = Some its"
  from f have "POST d t now body = ((201, p), d')"
    unfolding d'_def by (rule pair_fst_snd)
  from POST_created [OF this] i obtain user
    where c: "create_sale d user now body its = Inr ((201, p), d')"
    by auto
  show "map i_subtotal (items_of d' (next_id d)) =
        map (\<lambda>item. case calculatedSubtotal item of
                       None \<Rightarrow> quantity item * unitPrice item | Some v \<Rightarrow> v) its"
    by (simp only: created_items_of [OF c u] item_rows_subtotal item_subtotal_cases)
  from created_reconciled [OF c u]
  have "\<forall>s \<in> set (sale_rows d' (next_id d)).
          s_subtotal s = sum_list (map i_subtotal (items_of d' (next_id d)))"
    by (auto simp: sale_rows_def reconciled_def)
  then show "list_all (\<lambda>s. s_subtotal s =
              sum_list (map (\<lambda>item. case calculatedSubtotal item of
                               None \<Rightarrow> quantity item * unitPrice item | Some v \<Rightarrow> v) its))
            (sale_rows d' (next_id d))"
    by (simp only: list_all_iff created_items_of [OF c u] item_rows_subtotal item_subtotal_cases)
next
  define d' where "d' = snd (PUT d t now body)"
  assume f: "fst (PUT d t now body) = (200, p)" and b: "b_id body = Some saleId"
    and i: "items body = Some its"
  from f have "PUT d t now body = ((200, p), d')"
    unfolding d'_def by (rule pair_fst_snd)
  from PUT_updated [OF this] b
  have c: "update_sale d now saleId body = Inr ((200, p), d')"
    by auto
  show "map i_subtotal (items_of d' saleId) =
        map (\<lambda>item. case calculatedSubtotal item of
                       None \<Rightarrow> quantity item * unitPrice item | Some v \<Rightarrow> v) its"
    by (simp only: updated_items_of [OF c i] item_rows_subtotal item_subtotal_cases)
  from updated_reconciled [OF c i]
  have "\<forall>s \<in> set (sale_rows d' saleId).
          s_subtotal s = sum_list (map i_subtotal (items_of d' saleId))"
    by (auto simp: sale_rows_def reconciled_def)
  then show "list_all (\<lambda>s. s_subtotal s =
              sum_list (map (\<lambda>item. case calculatedSubtotal item of
                               None \<Rightarrow> quantity item * unitPrice item | Some v \<Rightarrow> v) its))
            (sale_rows d' saleId)"
    by (simp only: list_all_iff updated_items_of [OF c i] item_rows_subtotal item_subtotal_cases)
qed


lemma demo_sale_by_id:
  "sale_by_id demo_db 20 =
     Some \<lparr>s_id = 20, s_client_id = Some 10, attendant_id = 2, sale_date = 5,
          observations = None, status = ''aberta'', payment_method = Some ''pix'',
          general_discount_type = None, general_discount_value = 0,
          s_subtotal = 100, total_discount = 0, s_total = 100,
          confirmed_at = None, cancelled_at = None, created_at = 5, updated_at = 5\<rparr>"
  "sale_by_id demo_db 21 =
     Some \<lparr>s_id = 21, s_client_id = Some 10, attendant_id = 3, sale_date = 7,
          observations = None, status = ''confirmada'', payment_method = Some ''dinheiro'',
          general_discount_type = None, general_discount_value = 0,
          s_subtotal = 500, total_discount = 0, s_total = 500,
          confirmed_at = Some 8, cancelled_at = None, created_at = 7, updated_at = 8\<rparr>"
  "sale_by_id demo_db 99 = None"
  by (simp_all add: sale_by_id_def demo_db_def)

lemma mixed_fields:
  "b_id mixed_body = Some 20" "items mixed_body = Some mixed_items"
  by (simp_all add: mixed_body_def demo_body_def)

lemma mixed_POST:
  "fst (POST demo_db (Decoded 2) 9 mixed_body) =
     (201, SaleCreated 100 9 ''aberta'' 535 (Some ''01'') ''Venda criada com sucesso'')"
  by (simp add: POST_def demo_auth mixed_body_def demo_body_def truthy_id_def truthy_str_def
      create_sale_def insert_items_eq Let_def mixed_items_def demo_fields item_subtotal_def
      item_discount_def discountAmount_def gt_zero_def opt_num_or_def num_or_def)

lemma mixed_PUT:
  "fst (PUT demo_db (Decoded 2) 9 mixed_body) =
     (200, SaleUpdated ''Venda atualizada com sucesso'' 535)"
  by (simp add: PUT_def demo_auth mixed_body_def demo_body_def demo_sale_by_id
      update_sale_def insert_items_eq Let_def mixed_items_def item_subtotal_def
      item_discount_def discountAmount_def gt_zero_def opt_num_or_def num_or_def)

theorem calculated_subtotal_verbatim_witness:
  "fst (POST demo_db (Decoded 2) 9 mixed_body) =
     (201, SaleCreated 100 9 ''aberta'' 535 (Some ''01'') ''Venda criada com sucesso'')
   \<and> unused_id demo_db \<and> items mixed_body = Some mixed_items
   \<and> map calculatedSubtotal mixed_items = [Some 475, None]
   \<and> map i_subtotal (items_of (snd (POST demo_db (Decoded 2) 9 mixed_body)) 100) = [475, 60]
   \<and> fst (PUT demo_db (Decoded 2) 9 mixed_body) =
       (200, SaleUpdated ''Venda atualizada com sucesso'' 535)
   \<and> b_id mixed_body = Some 20
   \<and> map i_subtotal (items_of (snd (PUT demo_db (Decoded 2) 9 mixed_body)) 20) = [475, 60]"
proof -
  note post = calculated_subtotal_verbatim [THEN conjunct1, rule_format,
      OF mixed_POST demo_unused mixed_fields(2), THEN conjunct1]
  note put = calculated_subtotal_verbatim [THEN conjunct2, rule_format,
      OF mixed_PUT mixed_fields, THEN conjunct1]
  have "map i_subtotal (items_of (snd (POST demo_db (Decoded 2) 9 mixed_body)) 100) = [475, 60]"
    using post by (simp add: demo_fields mixed_items_def)
  moreover
  have "map i_subtotal (items_of (snd (PUT demo_db (Decoded 2) 9 mixed_body)) 20) = [475, 60]"
    using put by (simp add: mixed_items_def)
  moreover have "map calculatedSubtotal mixed_items = [Some 475, None]"
    by (simp add: mixed_items_def)
  ultimately show ?thesis
    by (intro conjI mixed_POST mixed_PUT demo_unused mixed_fields)
qed

section \<open>Updating a sale\<close>




lemma demo_ledger:
  "client_packages demo_db =
     [\<lparr>p_id = 30, p_client_id = Some 10, service_id = 50, p_sale_id = 21,
       initial_quantity = 10, consumed_quantity = 3, available_quantity = 7,
       p_unit_price = Finite 50, total_paid = 500, is_active = True\<rparr>]"
  "package_consumptions demo_db = []"
  by (simp_all add: demo_db_def)




text \<open>
  C6. For an authenticated caller and a request that carries an id, \<^verbatim>\<open>PUT\<close> checks in this
  order: no sale with the id, 404; the sale is not open, 400; the caller is neither an
  administrator nor the sale's attendant, 403; each of these leaves the datastore as it was.
  Otherwise, when the request carries its items, the answer is 200 with the recomputed total.
\<close>

theorem update_checks:
  "authenticateUser d t = Inr user \<longrightarrow> b_id body = Some saleId \<longrightarrow>
     (sale_by_id d saleId = None \<longrightarrow>
        PUT d t now body = ((404, Error ''Venda nao encontrada''), d))
     \<and> (sale_by_id d saleId = Some sale \<longrightarrow> status sale \<noteq> ''aberta'' \<longrightarrow>
        PUT d t now body = ((400, Error ''Apenas vendas abertas podem ser editadas''), d))
     \<and> (sale_by_id d saleId = Some sale \<longrightarrow> status sale = ''aberta'' \<longrightarrow>
        \<not> is_admin user \<longrightarrow> attendant_id sale \<noteq> u_id user \<longrightarrow>
        PUT d t now body = ((403, Error ''Voce nao tem permissao para editar esta venda''), d))
     \<and> (sale_by_id d saleId = Some sale \<longrightarrow> status sale = ''aberta'' \<longrightarrow>
        is_admin user \<or> attendant_id sale = u_id user \<longrightarrow> items body = Some its \<longrightarrow>
        fst (PUT d t now body) =
          (200, SaleUpdated ''Venda atualizada com sucesso'' (final_total body its)))"
  by (auto simp: PUT_def update_sale_def insert_items_eq Let_def final_total_def
      general_discount_def)


lemma demo_cases:
  "b_id (demo_body\<lparr>b_id := Some 99\<rparr>) = Some 99"
  "b_id (demo_body\<lparr>b_id := Some 21\<rparr>) = Some 21"
  "items demo_body = Some [demo_item]"
  "final_total demo_body [demo_item] = 160"
  by (simp_all add: demo_body_def final_total_def general_discount_def demo_item_def
      item_subtotal_def item_discount_def discountAmount_def gt_zero_def opt_num_or_def
      num_or_def)

theorem update_checks_witness:
  "PUT demo_db (Decoded 2) 9 (demo_body\<lparr>b_id := Some 99\<rparr>) =
     ((404, Error ''Venda nao encontrada''), demo_db)
   \<and> PUT demo_db (Decoded 3) 9 (demo_body\<lparr>b_id := Some 21\<rparr>) =
     ((400, Error ''Apenas vendas abertas podem ser editadas''), demo_db)
   \<and> PUT demo_db (Decoded 3) 9 demo_body =
     ((403, Error ''Voce nao tem permissao para editar esta venda''), demo_db)
   \<and> fst (PUT demo_db (Decoded 2) 9 demo_body) =
     (200, SaleUpdated ''Venda atualizada com sucesso'' 160)
   \<and> fst (PUT demo_db (Decoded 1) 9 demo_body) =
     (200, SaleUpdated ''Venda atualizada com sucesso'' 160)"
proof (intro conjI)
  show "PUT demo_db (Decoded 2) 9 (demo_body\<lparr>b_id := Some 99\<rparr>) =
     ((404, Error ''Venda nao encontrada''), demo_db)"
    by (rule update_checks [rule_format, OF demo_auth(2) demo_cases(1), THEN conjunct1,
          rule_format, OF demo_sale_by_id(3)])
  show "PUT demo_db (Decoded 3) 9 (demo_body\<lparr>b_id := Some 21\<rparr>) =
     ((400, Error ''Apenas vendas abertas podem ser editadas''), demo_db)"
    by (rule update_checks [rule_format, OF demo_auth(3) demo_cases(2), THEN conjunct2,
          THEN conjunct1, rule_format, OF demo_sale_by_id(2)]) simp
  show "PUT demo_db (Decoded 3) 9 demo_body =
     ((403, Error ''Voce nao tem permissao para editar esta venda''), demo_db)"
    by (rule update_checks [rule_format, OF demo_auth(3) demo_body_id, THEN conjunct2,
          THEN conjunct2, THEN conjunct1, rule_format, OF demo_sale_by_id(1)]) simp_all
  have "fst (PUT demo_db (Decoded 2) 9 demo_body) =
     (200, SaleUpdated ''Venda atualizada com sucesso'' (final_total demo_body [demo_item]))"
    by (rule update_checks [rule_format, OF demo_auth(2) demo_body_id, THEN conjunct2,
          THEN conjunct2, THEN conjunct2, rule_format, OF demo_sale_by_id(1) _ _ demo_cases(3)])
      simp_all
  then show "fst (PUT demo_db (Decoded 2) 9 demo_body) =
     (200, SaleUpdated ''Venda atualizada com sucesso'' 160)"
    by (simp only: demo_cases(4))
  have "fst (PUT demo_db (Decoded 1) 9 demo_body) =
     (200, SaleUpdated ''Venda atualizada com sucesso'' (final_total demo_body [demo_item]))"
    by (rule update_checks [rule_format, OF demo_auth(1) demo_body_id, THEN conjunct2,
          THEN conjunct2, THEN conjunct2, rule_format, OF demo_sale_by_id(1) _ _ demo_cases(3)])
      simp_all
  then show "fst (PUT demo_db (Decoded 1) 9 demo_body) =
     (200, SaleUpdated ''Venda atualizada com sucesso'' 160)"
    by (simp only: demo_cases(4))
qed

section \<open>Package ledger\<close>

lemma consume_balance: "balance_ok p \<Longrightarrow> consume p q = Inr p' \<Longrightarrow> balance_ok p'"
  by (auto simp: consume_def balance_ok_def split: if_splits)

lemma consume_package_ledger:
  assumes l: "ledger_ok d" and c: "consume_package d package sale q = Inr d'"
  shows "ledger_ok d'"
proof -
  from c obtain p p' where f: "package_by_id d package = Some p" and k: "consume p q = Inr p'"
    and d': "client_packages d' = map (\<lambda>r. if p_id r = package then p' else r) (client_packages d)"
    by (auto simp: consume_package_def split: option.splits sum.splits)
  from find_SomeD [OF f [unfolded package_by_id_def]] l have "balance_ok p"
    by (simp add: ledger_ok_def list_all_iff)
  from consume_balance [OF this k] l show ?thesis
    by (auto simp: ledger_ok_def list_all_iff d')
qed

lemma apply_consume_ledger: "ledger_ok d \<Longrightarrow> ledger_ok (apply_consume d c)"
  by (cases c) (auto simp: apply_consume_def dest: consume_package_ledger split: sum.splits)

lemma consume_trace_ledger: "ledger_ok d \<Longrightarrow> list_all ledger_ok (consume_trace d cs)"
  by (induction cs arbitrary: d) (simp_all add: apply_consume_ledger)

lemma consume_package_insufficient:
  "package_by_id d package = Some p \<Longrightarrow> is_active p \<Longrightarrow> available_quantity p < q \<Longrightarrow>
     consume_package d package sale q = Inl InsufficientBalance"
  by (simp add: consume_package_def consume_def)

lemma insufficient_status:
  "catch_status 400 (''Erro ao consumir pacote: '' @ ledger_message InsufficientBalance) = 400"
  by (simp add: catch_status_def ledger_message_def startsWith_def)

lemma consume_insufficient_any:
  assumes "package_by_id d package = Some p" "is_active p" "available_quantity p < q"
    and "client_packages d3 = client_packages d"
  shows "consume_package d3 package sale q = Inl InsufficientBalance"
  using assms by (simp add: consume_package_def consume_def package_by_id_def)

lemma POST_insufficient:
  assumes a: "authenticateUser d t = Inr user" and c: "clientId body \<noteq> None"
    and m: "truthy_str (paymentMethod body)" and i: "items body = Some (firstItem # rest)"
    and ty: "saleType body = Some ''03''" and pk: "packageId body = Some package"
    and f: "package_by_id d package = Some p" and act: "is_active p"
    and q: "available_quantity p < quantity firstItem"
  shows "POST d t now body =
           ((400, Error ''Erro ao consumir pacote: InsufficientBalance''), d)"
proof -
  have "create_sale d user now body (firstItem # rest) =
      Inl (''Erro ao consumir pacote: '' @ ledger_message InsufficientBalance)"
    by (simp add: create_sale_def insert_items_eq Let_def ty pk
        consume_insufficient_any [OF f act q] update_totals_def insert_sale_def)
  with a c m i ty pk insufficient_status show ?thesis
    by (simp add: POST_def truthy_id_def ledger_message_def)
qed

text \<open>
  C1. Along every sequence of consume operations, each state of the ledger keeps the balance
  invariant when the first one has it: no package has a negative available quantity and every
  initial quantity is the consumed plus the available one. A consume of more than the
  available quantity of an active package fails with \<open>InsufficientBalance\<close> and leaves the
  datastore as it was, and \<^verbatim>\<open>POST\<close> answers such a package consumption with 400 and rolls the
  whole sale back.
\<close>

theorem consume_balance_invariant:
  "(ledger_ok d \<longrightarrow> list_all ledger_ok (consume_trace d cs))
   \<and> (package_by_id d package = Some p \<longrightarrow> is_active p \<longrightarrow> available_quantity p < q \<longrightarrow>
        consume_package d package sale q = Inl InsufficientBalance
        \<and> apply_consume d (package, sale, q) = d)
   \<and> (authenticateUser d t = Inr user \<longrightarrow> clientId body \<noteq> None \<longrightarrow>
        truthy_str (paymentMethod body) \<longrightarrow> items body = Some (firstItem # rest) \<longrightarrow>
        saleType body = Some ''03'' \<longrightarrow> packageId body = Some package \<longrightarrow>
        package_by_id d package = Some p \<longrightarrow> is_active p \<longrightarrow>
        available_quantity p < quantity firstItem \<longrightarrow>
        POST d t now body = ((400, Error ''Erro ao consumir pacote: InsufficientBalance''), d))"
proof (intro conjI impI)
  assume "ledger_ok d"
  then show "list_all ledger_ok (consume_trace d cs)" by (rule consume_trace_ledger)
next
  assume h: "package_by_id d package = Some p" "is_active p" "available_quantity p < q"
  from consume_package_insufficient [OF h]
  show k: "consume_package d package sale q = Inl InsufficientBalance" .
  then show "apply_consume d (package, sale, q) = d"
    by (simp add: apply_consume_def)
next
  assume "authenticateUser d t = Inr user" "clientId body \<noteq> None"
    "truthy_str (paymentMethod body)" "items body = Some (firstItem # rest)"
    "saleType body = Some ''03''" "packageId body = Some package"
    "package_by_id d package = Some p" "is_active p"
    "available_quantity p < quantity firstItem"
  then show "POST d t now body =
      ((400, Error ''Erro ao consumir pacote: InsufficientBalance''), d)"
    by (rule POST_insufficient)
qed


lemma demo_ledger_ok: "ledger_ok demo_db"
  by (simp add: ledger_ok_def demo_ledger balance_ok_def)

lemma demo_package:
  "package_by_id demo_db 30 =
     Some \<lparr>p_id = 30, p_client_id = Some 10, service_id = 50, p_sale_id = 21,
       initial_quantity = 10, consumed_quantity = 3, available_quantity = 7,
       p_unit_price = Finite 50, total_paid = 500, is_active = True\<rparr>"
  by (simp add: package_by_id_def demo_ledger)

lemma over_consumption_fields:
  "clientId over_consumption_body \<noteq> None" "truthy_str (paymentMethod over_consumption_body)"
  "items over_consumption_body = Some (consumption_item\<lparr>quantity := 8\<rparr> # [])"
  "saleType over_consumption_body = Some ''03''" "packageId over_consumption_body = Some 30"
  by (simp_all add: over_consumption_body_def consumption_body_def truthy_str_def)

lemma demo_trace:
  "map (\<lambda>d. map available_quantity (client_packages d))
     (consume_trace demo_db [(30, 100, 3), (30, 101, 8), (30, 102, 4)]) = [[4], [4], [0]]"
  "map (\<lambda>d. map consumed_quantity (client_packages d))
     (consume_trace demo_db [(30, 100, 3), (30, 101, 8), (30, 102, 4)]) = [[6], [6], [10]]"
  by (simp_all add: apply_consume_def consume_package_def package_by_id_def consume_def
      demo_ledger)

theorem consume_balance_invariant_witness:
  "ledger_ok demo_db
   \<and> list_all ledger_ok (consume_trace demo_db [(30, 100, 3), (30, 101, 8), (30, 102, 4)])
   \<and> map (\<lambda>d. map available_quantity (client_packages d))
       (consume_trace demo_db [(30, 100, 3), (30, 101, 8), (30, 102, 4)]) = [[4], [4], [0]]
   \<and> consume_package demo_db 30 100 8 = Inl InsufficientBalance
   \<and> apply_consume demo_db (30, 100, 8) = demo_db
   \<and> POST demo_db (Decoded 2) 9 over_consumption_body =
       ((400, Error ''Erro ao consumir pacote: InsufficientBalance''), demo_db)"
proof (intro conjI demo_ledger_ok demo_trace(1))
  show "list_all ledger_ok (consume_trace demo_db [(30, 100, 3), (30, 101, 8), (30, 102, 4)])"
    by (rule consume_balance_invariant [THEN conjunct1, rule_format, OF demo_ledger_ok])
  note fails = consume_balance_invariant [THEN conjunct2, THEN conjunct1, rule_format,
      OF demo_package, of 8 100]
  show "consume_package demo_db 30 100 8 = Inl InsufficientBalance"
    by (rule fails [THEN conjunct1]) simp_all
  show "apply_consume demo_db (30, 100, 8) = demo_db"
    by (rule fails [THEN conjunct2]) simp_all
  show "POST demo_db (Decoded 2) 9 over_consumption_body =
       ((400, Error ''Erro ao consumir pacote: InsufficientBalance''), demo_db)"
    by (rule consume_balance_invariant [THEN conjunct2, THEN conjunct2, rule_format,
          OF demo_auth(2) over_consumption_fields demo_package])
      (simp_all add: consumption_item_def)
qed

section \<open>Amounts below zero\<close>

text \<open>
  C2. The handlers neither cap a fixed discount nor clamp the total. For one unit at 40 with
  a fixed discount of 50, \<^verbatim>\<open>POST\<close> answers 201 and \<^verbatim>\<open>PUT\<close> answers 200, and both store
  the item total -10 and the sale total -10, where the claim asks for 0.
\<close>

theorem negative_total_stored:
  "fst (POST demo_db (Decoded 2) 9 overdiscount_body) =
     (201, SaleCreated 100 9 ''aberta'' (- 10) (Some ''01'') ''Venda criada com sucesso'')
   \<and> map i_total (items_of (snd (POST demo_db (Decoded 2) 9 overdiscount_body)) 100) = [- 10]
   \<and> map s_total (sale_rows (snd (POST demo_db (Decoded 2) 9 overdiscount_body)) 100) = [- 10]
   \<and> fst (PUT demo_db (Decoded 2) 9 overdiscount_body) =
     (200, SaleUpdated ''Venda atualizada com sucesso'' (- 10))
   \<and> map i_total (items_of (snd (PUT demo_db (Decoded 2) 9 overdiscount_body)) 20) = [- 10]
   \<and> map s_total (sale_rows (snd (PUT demo_db (Decoded 2) 9 overdiscount_body)) 20) = [- 10]"
  by code_simp

section \<open>Discounts of a package consumption\<close>

lemma item_rows_total:
  "map i_total (item_rows n saleId now its) = map (\<lambda>item. item_subtotal item - item_discount item) its"
  by (induction its arbitrary: n) (simp_all add: new_item_row_def)

lemma item_discount_cases:
  "item_discount = (\<lambda>item. discountAmount (discountType item) (discountValue item) (item_subtotal item))"
  by (rule ext) (simp add: item_discount_def)

lemma item_rows_no_discount:
  "list_all (\<lambda>item. \<not> gt_zero (discountValue item)) its \<Longrightarrow>
     list_all (\<lambda>r. discount_amount r = 0 \<and> i_total r = i_subtotal r) (item_rows n saleId now its)"
  by (induction its arbitrary: n)
    (simp_all add: new_item_row_def item_discount_def discountAmount_def)

text \<open>
  C4, as amended. In a package consumption that \<^verbatim>\<open>POST\<close> creates, the stored discount of each
  item is computed from the discount type and value of the request item, by the statement
  that serves every sale type, and the item total is the subtotal minus that discount. The
  discount is 0 and the total is the subtotal for the items whose discount value is absent or
  not above 0, which is how the sales page fills a package consumption.
\<close>

theorem consumption_discount_from_request:
  "fst (POST d t now body) = (201, p) \<longrightarrow> unused_id d \<longrightarrow> saleType body = Some ''03'' \<longrightarrow>
   items body = Some its \<longrightarrow>
     map discount_amount (items_of (snd (POST d t now body)) (next_id d)) =
       map (\<lambda>item. discountAmount (discountType item) (discountValue item) (item_subtotal item))
         its
     \<and> map i_total (items_of (snd (POST d t now body)) (next_id d)) =
       map (\<lambda>item. item_subtotal item
              - discountAmount (discountType item) (discountValue item) (item_subtotal item)) its
     \<and> (list_all (\<lambda>item. \<not> gt_zero (discountValue item)) its \<longrightarrow>
          list_all (\<lambda>r. discount_amount r = 0 \<and> i_total r = i_subtotal r)
            (items_of (snd (POST d t now body)) (next_id d)))"
proof (intro impI)
  define d' where "d' = snd (POST d t now body)"
  assume f: "fst (POST d t now body) = (201, p)" and u: "unused_id d"
    and i: "items body = Some its"
  from f have "POST d t now body = ((201, p), d')"
    unfolding d'_def by (rule pair_fst_snd)
  from POST_created [OF this] i obtain user
    where c: "create_sale d user now body its = Inr ((201, p), d')"
    by auto
  note rows = created_items_of [OF c u]
  have "map discount_amount (items_of d' (next_id d)) =
       map (\<lambda>item. discountAmount (discountType item) (discountValue item) (item_subtotal item))
         its"
    by (simp only: rows item_rows_discount item_discount_cases)
  moreover
  have "map i_total (items_of d' (next_id d)) =
       map (\<lambda>item. item_subtotal item
              - discountAmount (discountType item) (discountValue item) (item_subtotal item)) its"
    by (simp only: rows item_rows_total item_discount_cases)
  moreover
  have "list_all (\<lambda>item. \<not> gt_zero (discountValue item)) its \<longrightarrow>
          list_all (\<lambda>r. discount_amount r = 0 \<and> i_total r = i_subtotal r)
            (items_of d' (next_id d))"
    unfolding rows by (rule impI) (rule item_rows_no_discount)
  ultimately show "map discount_amount (items_of d' (next_id d)) =
       map (\<lambda>item. discountAmount (discountType item) (discountValue item) (item_subtotal item))
         its
     \<and> map i_total (items_of d' (next_id d)) =
       map (\<lambda>item. item_subtotal item
              - discountAmount (discountType item) (discountValue item) (item_subtotal item)) its
     \<and> (list_all (\<lambda>item. \<not> gt_zero (discountValue item)) its \<longrightarrow>
          list_all (\<lambda>r. discount_amount r = 0 \<and> i_total r = i_subtotal r)
            (items_of d' (next_id d)))"
    by (intro conjI)
qed

lemma page_consumption_fields:
  "saleType page_consumption_body = Some ''03''"
  "items page_consumption_body =
     Some [consumption_item\<lparr>discountType := Some ''percentage'', discountValue := Some 0\<rparr>]"
  by (simp_all add: page_consumption_body_def consumption_body_def)

lemma page_consumption_POST:
  "fst (POST demo_db (Decoded 2) 9 page_consumption_body) =
     (201, SaleCreated 100 9 ''aberta'' 100 (Some ''03'') ''Venda criada com sucesso'')"
  by code_simp

theorem consumption_discount_from_request_witness:
  "fst (POST demo_db (Decoded 2) 9 page_consumption_body) =
     (201, SaleCreated 100 9 ''aberta'' 100 (Some ''03'') ''Venda criada com sucesso'')
   \<and> unused_id demo_db \<and> saleType page_consumption_body = Some ''03''
   \<and> list_all (\<lambda>r. discount_amount r = 0 \<and> i_total r = i_subtotal r)
        (items_of (snd (POST demo_db (Decoded 2) 9 page_consumption_body)) 100)"
proof -
  have "list_all (\<lambda>r. discount_amount r = 0 \<and> i_total r = i_subtotal r)
        (items_of (snd (POST demo_db (Decoded 2) 9 page_consumption_body)) (next_id demo_db))"
    by (rule consumption_discount_from_request [rule_format, OF page_consumption_POST demo_unused
          page_consumption_fields, THEN conjunct2, THEN conjunct2, rule_format])
      (simp add: gt_zero_def)
  then show ?thesis
    by (simp only: demo_fields(1) page_consumption_POST demo_unused page_consumption_fields(1))
qed

text \<open>
  C4, as stated, fails: a package consumption whose item carries a fixed discount of 30 on a
  subtotal of 100 is created with the discount amount 30 and the item total 70.
\<close>

theorem consumption_discount_counterexample:
  "saleType consumption_body = Some ''03''
   \<and> fst (POST demo_db (Decoded 2) 9 consumption_body) =
       (201, SaleCreated 100 9 ''aberta'' 70 (Some ''03'') ''Venda criada com sucesso'')
   \<and> map i_subtotal (items_of (snd (POST demo_db (Decoded 2) 9 consumption_body)) 100) = [100]
   \<and> map discount_amount (items_of (snd (POST demo_db (Decoded 2) 9 consumption_body)) 100) = [30]
   \<and> map i_total (items_of (snd (POST demo_db (Decoded 2) 9 consumption_body)) 100) = [70]"
  by code_simp


section \<open>Package sales\<close>

lemma POST_package_sale:
  assumes a: "authenticateUser d t = Inr user" and c: "clientId body \<noteq> None"
    and m: "truthy_str (paymentMethod body)" and i: "items body = Some (firstItem # rest)"
    and ty: "saleType body = Some ''02''" and sv: "serviceId body = Some service"
  shows "POST d t now body =
    ((201, SaleCreated (next_id d) now ''aberta'' (final_total body (firstItem # rest))
             (Some ''02'') ''Venda criada com sucesso''),
     insert_package
       (update_totals
          (fst (insert_items (insert_sale d user now body) (next_id d) now (firstItem # rest) 0 0))
          (next_id d) (sum_list (map item_subtotal (firstItem # rest)))
          (sum_list (map item_discount (firstItem # rest))
            + general_discount body (firstItem # rest))
          (final_total body (firstItem # rest)))
       (clientId body) service (next_id d) (quantity firstItem)
       (js_div (final_total body (firstItem # rest)) (quantity firstItem))
       (final_total body (firstItem # rest)))"
  using a c m i ty sv
  by (simp add: POST_def truthy_id_def create_sale_def insert_items_eq Let_def final_total_def
      general_discount_def)

lemma POST_plain_sale:
  assumes a: "authenticateUser d t = Inr user" and c: "clientId body \<noteq> None"
    and m: "truthy_str (paymentMethod body)" and i: "items body = Some (firstItem # rest)"
    and ty: "saleType body = Some ''02''" and sv: "serviceId body = None"
  shows "POST d t now body =
    ((201, SaleCreated (next_id d) now ''aberta'' (final_total body (firstItem # rest))
             (Some ''02'') ''Venda criada com sucesso''),
     update_totals
       (fst (insert_items (insert_sale d user now body) (next_id d) now (firstItem # rest) 0 0))
       (next_id d) (sum_list (map item_subtotal (firstItem # rest)))
       (sum_list (map item_discount (firstItem # rest))
         + general_discount body (firstItem # rest))
       (final_total body (firstItem # rest)))"
  using a c m i ty sv
  by (simp add: POST_def truthy_id_def create_sale_def insert_items_eq Let_def final_total_def
      general_discount_def)

text \<open>
  C5, as amended. A package sale that passes the validations of \<^verbatim>\<open>POST\<close> is answered with
  201 whatever the quantity of its first item, on which the handler puts no condition. When
  it carries a \<^verbatim>\<open>serviceId\<close> it adds exactly one package: its initial and available quantity
  are the first item's quantity, its consumed quantity is 0, its total paid is the sale's
  final total, it is active, and its unit price is the total paid divided by the initial
  quantity when that quantity is not 0 and not a finite number when it is 0. When it carries
  no \<^verbatim>\<open>serviceId\<close> it adds no package.
\<close>

theorem package_sale_creates_package:
  "authenticateUser d t = Inr user \<longrightarrow> clientId body \<noteq> None \<longrightarrow>
   truthy_str (paymentMethod body) \<longrightarrow> items body = Some (firstItem # rest) \<longrightarrow>
   saleType body = Some ''02'' \<longrightarrow>
     (serviceId body = Some service \<longrightarrow>
        fst (POST d t now body) =
          (201, SaleCreated (next_id d) now ''aberta'' (final_total body (firstItem # rest))
                  (Some ''02'') ''Venda criada com sucesso'')
        \<and> client_packages (snd (POST d t now body)) =
            client_packages d @
              [\<lparr>p_id = Suc (Suc (next_id d + length rest)), p_client_id = clientId body,
                service_id = service, p_sale_id = next_id d,
                initial_quantity = quantity firstItem, consumed_quantity = 0,
                available_quantity = quantity firstItem,
                p_unit_price =
                  (if quantity firstItem \<noteq> 0
                   then Finite (final_total body (firstItem # rest) / quantity firstItem)
                   else NotFinite),
                total_paid = final_total body (firstItem # rest), is_active = True\<rparr>])
     \<and> (serviceId body = None \<longrightarrow>
        fst (POST d t now body) =
          (201, SaleCreated (next_id d) now ''aberta'' (final_total body (firstItem # rest))
                  (Some ''02'') ''Venda criada com sucesso'')
        \<and> client_packages (snd (POST d t now body)) = client_packages d)"
proof (intro impI conjI)
  assume h: "authenticateUser d t = Inr user" "clientId body \<noteq> None"
    "truthy_str (paymentMethod body)" "items body = Some (firstItem # rest)"
    "saleType body = Some ''02''"
  {
    assume sv: "serviceId body = Some service"
    note p = POST_package_sale [OF h sv, of now]
    show "fst (POST d t now body) =
          (201, SaleCreated (next_id d) now ''aberta'' (final_total body (firstItem # rest))
                  (Some ''02'') ''Venda criada com sucesso'')"
      by (simp add: p)
    show "client_packages (snd (POST d t now body)) =
            client_packages d @
              [\<lparr>p_id = Suc (Suc (next_id d + length rest)), p_client_id = clientId body,
                service_id = service, p_sale_id = next_id d,
                initial_quantity = quantity firstItem, consumed_quantity = 0,
                available_quantity = quantity firstItem,
                p_unit_price =
                  (if quantity firstItem \<noteq> 0
                   then Finite (final_total body (firstItem # rest) / quantity firstItem)
                   else NotFinite),
                total_paid = final_total body (firstItem # rest), is_active = True\<rparr>]"
      by (simp add: p insert_package_def update_totals_def insert_items_eq insert_sale_def
          js_div_def)
  }
  {
    assume sv: "serviceId body = None"
    note p = POST_plain_sale [OF h sv, of now]
    show "fst (POST d t now body) =
          (201, SaleCreated (next_id d) now ''aberta'' (final_total body (firstItem # rest))
                  (Some ''02'') ''Venda criada com sucesso'')"
      by (simp add: p)
    show "client_packages (snd (POST d t now body)) = client_packages d"
      by (simp add: p update_totals_def insert_items_eq insert_sale_def)
  }
qed

lemma ten_credits_fields:
  "clientId ten_credits_body \<noteq> None" "truthy_str (paymentMethod ten_credits_body)"
  "items ten_credits_body = Some (package_item 10 (Some 500) # [])"
  "saleType ten_credits_body = Some ''02''" "serviceId ten_credits_body = Some 50"
  by (simp_all add: ten_credits_body_def package_body_def truthy_str_def)

lemma no_service_fields:
  "clientId no_service_body \<noteq> None" "truthy_str (paymentMethod no_service_body)"
  "items no_service_body = Some (package_item 10 (Some 500) # [])"
  "saleType no_service_body = Some ''02''" "serviceId no_service_body = None"
  by (simp_all add: no_service_body_def package_body_def truthy_str_def)

lemma ten_credits_total:
  "final_total ten_credits_body [package_item 10 (Some 500)] = 500"
  "final_total no_service_body [package_item 10 (Some 500)] = 500"
  by (simp_all add: ten_credits_body_def no_service_body_def package_body_def package_item_def
      final_total_def general_discount_def item_subtotal_def item_discount_def
      discountAmount_def gt_zero_def)

theorem package_sale_creates_package_witness:
  "fst (POST demo_db (Decoded 2) 9 ten_credits_body) =
     (201, SaleCreated 100 9 ''aberta'' 500 (Some ''02'') ''Venda criada com sucesso'')
   \<and> client_packages (snd (POST demo_db (Decoded 2) 9 ten_credits_body)) =
       client_packages demo_db @
         [\<lparr>p_id = 102, p_client_id = Some 10, service_id = 50, p_sale_id = 100,
           initial_quantity = 10, consumed_quantity = 0, available_quantity = 10,
           p_unit_price = Finite 50, total_paid = 500, is_active = True\<rparr>]
   \<and> fst (POST demo_db (Decoded 2) 9 no_service_body) =
     (201, SaleCreated 100 9 ''aberta'' 500 (Some ''02'') ''Venda criada com sucesso'')
   \<and> client_packages (snd (POST demo_db (Decoded 2) 9 no_service_body)) =
       client_packages demo_db"
proof -
  note with_service = package_sale_creates_package [rule_format, OF demo_auth(2)
      ten_credits_fields(1-4), THEN conjunct1, rule_format, OF ten_credits_fields(5), of 9]
  note without_service = package_sale_creates_package [rule_format, OF demo_auth(2)
      no_service_fields(1-4), THEN conjunct2, rule_format, OF no_service_fields(5), of 9]
  have "fst (POST demo_db (Decoded 2) 9 ten_credits_body) =
     (201, SaleCreated 100 9 ''aberta'' 500 (Some ''02'') ''Venda criada com sucesso'')"
    using with_service [THEN conjunct1] by (simp add: ten_credits_total demo_fields(1))
  moreover
  have "client_packages (snd (POST demo_db (Decoded 2) 9 ten_credits_body)) =
       client_packages demo_db @
         [\<lparr>p_id = 102, p_client_id = Some 10, service_id = 50, p_sale_id = 100,
           initial_quantity = 10, consumed_quantity = 0, available_quantity = 10,
           p_unit_price = Finite 50, total_paid = 500, is_active = True\<rparr>]"
    using with_service [THEN conjunct2]
    by (simp add: ten_credits_total demo_fields(1))
      (simp add: ten_credits_body_def package_body_def package_item_def)
  moreover
  have "fst (POST demo_db (Decoded 2) 9 no_service_body) =
     (201, SaleCreated 100 9 ''aberta'' 500 (Some ''02'') ''Venda criada com sucesso'')"
    using without_service [THEN conjunct1] by (simp add: ten_credits_total demo_fields(1))
  ultimately show ?thesis
    using without_service [THEN conjunct2] by (intro conjI)
qed

text \<open>
  C5, as stated, fails: a package sale whose first item has quantity -2, and one whose first
  item has quantity 0, are answered with 201 and add a package; a package sale without
  \<^verbatim>\<open>serviceId\<close> is answered with 201 and adds none.
\<close>

theorem package_sale_counterexample:
  "saleType negative_package_body = Some ''02''
   \<and> fst (POST demo_db (Decoded 2) 9 negative_package_body) =
       (201, SaleCreated 100 9 ''aberta'' (- 80) (Some ''02'') ''Venda criada com sucesso'')
   \<and> map initial_quantity (client_packages (snd (POST demo_db (Decoded 2) 9 negative_package_body)))
       = [10, - 2]
   \<and> map p_unit_price (client_packages (snd (POST demo_db (Decoded 2) 9 negative_package_body)))
       = [Finite 50, Finite 40]
   \<and> saleType zero_package_body = Some ''02''
   \<and> fst (POST demo_db (Decoded 2) 9 zero_package_body) =
       (201, SaleCreated 100 9 ''aberta'' 500 (Some ''02'') ''Venda criada com sucesso'')
   \<and> map initial_quantity (client_packages (snd (POST demo_db (Decoded 2) 9 zero_package_body)))
       = [10, 0]
   \<and> map p_unit_price (client_packages (snd (POST demo_db (Decoded 2) 9 zero_package_body)))
       = [Finite 50, NotFinite]
   \<and> saleType no_service_body = Some ''02''
   \<and> fst (POST demo_db (Decoded 2) 9 no_service_body) =
       (201, SaleCreated 100 9 ''aberta'' 500 (Some ''02'') ''Venda criada com sucesso'')
   \<and> map p_id (client_packages (snd (POST demo_db (Decoded 2) 9 no_service_body))) = [30]"
  by code_simp

section \<open>Listing sales\<close>

lemma map_insort_key: "map f (insort_key (\<lambda>x. k (f x)) x xs) = insort_key k (f x) (map f xs)"
  by (induction xs) simp_all

lemma map_sort_key: "map f (sort_key (\<lambda>x. k (f x)) xs) = sort_key k (map f xs)"
  by (induction xs) (simp_all add: map_insort_key)

lemma join_row_fst: "\<forall>r \<in> set (join_row d s). fst r = s"
  by (auto simp: join_row_def)

lemma filter_join_row:
  "filter (\<lambda>r. P (fst r)) (join_row d s) = (if P s then join_row d s else [])"
  using join_row_fst [of d s] by (auto simp: filter_empty_conv filter_id_conv)

lemma filter_joined:
  "filter (\<lambda>r. P (fst r)) (concat (map (join_row d) ss)) =
     concat (map (join_row d) (filter P ss))"
  by (induction ss) (simp_all add: filter_join_row)

lemma join_row_sales [simp]: "join_row (d\<lparr>sales := ss\<rparr>) = join_row d"
  by (rule ext) (simp add: join_row_def cong: if_cong)

lemma format_sale_sales [simp]: "format_sale (d\<lparr>sales := ss\<rparr>) = format_sale d"
  by (rule ext) (simp add: format_sale_def items_of_def split: prod.splits)

lemma select_sales_fst:
  "select_sales d user =
     sort_key (\<lambda>r. - sale_date (fst r))
       (concat (map (join_row d)
          (filter (\<lambda>s. is_admin user \<or> attendant_id s = u_id user) (sales d))))"
  by (simp add: select_sales_def joined_sales_def split_def
      filter_joined [of "\<lambda>s. is_admin user \<or> attendant_id s = u_id user"])

lemma filter_unique:
  "distinct (map f xs) \<Longrightarrow> x \<in> set xs \<Longrightarrow> filter (\<lambda>y. k = f y) xs = [x]" if "k = f x"
  unfolding that
proof (induction xs)
  case Nil
  then show ?case by simp
next
  case (Cons a xs)
  show ?case
  proof (cases "a = x")
    case True
    with Cons.prems have "\<forall>y \<in> set xs. f x \<noteq> f y" by auto
    then have "filter (\<lambda>y. f x = f y) xs = []" by (simp add: filter_empty_conv)
    with True show ?thesis by simp
  next
    case False
    with Cons.prems have "x \<in> set xs" "f x \<noteq> f a" by (auto simp: image_iff)
    with Cons show ?thesis by simp
  qed
qed

lemma concat_map_if:
  "concat (map (\<lambda>x. if P x then g x else []) xs) = concat (map g (filter P xs))"
  by (induction xs) simp_all

lemma join_row_single:
  assumes "distinct (map c_id (clients d))" "distinct (map u_id (users d))"
    and "s_client_id s \<in> set (map (\<lambda>c. Some (c_id c)) (clients d))"
    and "attendant_id s \<in> set (map u_id (users d))"
  shows "map fst (join_row d s) = [s]"
proof -
  from assms(3) obtain c where c: "c \<in> set (clients d)" "s_client_id s = Some (c_id c)" by auto
  from assms(4) obtain u where u: "u \<in> set (users d)" "attendant_id s = u_id u" by auto
  have fc: "filter (\<lambda>x. s_client_id s = Some (c_id x)) (clients d) = [c]"
    using filter_unique [of "c_id c" c_id c "clients d"] assms(1) c by simp
  have fu: "filter (\<lambda>x. attendant_id s = u_id x) (users d) = [u]"
    using filter_unique [of "attendant_id s" u_id u "users d"] assms(2) u by simp
  show ?thesis
    by (simp add: join_row_def concat_map_if fc fu)
qed

lemma joined_sales_fst:
  assumes "distinct (map c_id (clients d))" "distinct (map u_id (users d))"
    and "list_all (\<lambda>s. s_client_id s \<in> set (map (\<lambda>c. Some (c_id c)) (clients d))
                       \<and> attendant_id s \<in> set (map u_id (users d))) ss"
  shows "map fst (concat (map (join_row d) ss)) = ss"
  using assms(3)
  by (induction ss) (simp_all add: join_row_single [OF assms(1,2)])

lemma listed_GET:
  "authenticateUser d t = Inr user \<Longrightarrow>
     listed (GET d t) = map (format_sale d) (select_sales d user)"
  by (simp add: GET_def listed_def)

lemma format_sale_ids:
  "f_id (format_sale d r) = s_id (fst r)" "f_attendantId (format_sale d r) = attendant_id (fst r)"
  by (simp_all add: format_sale_def split_def)

lemma listed_ids:
  assumes a: "authenticateUser d t = Inr user" and r: "ref_ok d"
  shows "map f_id (listed (GET d t)) =
     map s_id (sort_key (\<lambda>s. - sale_date s)
       (filter (\<lambda>s. is_admin user \<or> attendant_id s = u_id user) (sales d)))"
proof -
  let ?own = "filter (\<lambda>s. is_admin user \<or> attendant_id s = u_id user) (sales d)"
  from r have "list_all (\<lambda>s. s_client_id s \<in> set (map (\<lambda>c. Some (c_id c)) (clients d))
                       \<and> attendant_id s \<in> set (map u_id (users d))) ?own"
    by (simp add: ref_ok_def list_all_iff)
  with r have rows: "map fst (concat (map (join_row d) ?own)) = ?own"
    by (intro joined_sales_fst) (simp_all add: ref_ok_def)
  have "map f_id (listed (GET d t)) = map s_id (map fst (select_sales d user))"
    by (simp add: listed_GET [OF a] format_sale_ids o_def)
  also have "map fst (select_sales d user) = sort_key (\<lambda>s. - sale_date s) ?own"
    by (simp only: select_sales_fst map_sort_key [of fst "\<lambda>s. - sale_date s"] rows)
  finally show ?thesis .
qed

lemma listed_own:
  assumes a: "authenticateUser d t = Inr user" and n: "\<not> is_admin user"
  shows "list_all (\<lambda>f. f_attendantId f = u_id user) (listed (GET d t))"
proof -
  have "attendant_id (fst r) = u_id user" if "r \<in> set (select_sales d user)" for r
  proof -
    from that n obtain s where "s \<in> set (sales d)" "attendant_id s = u_id user"
      "r \<in> set (join_row d s)"
      by (auto simp: select_sales_fst)
    with join_row_fst [of d s] show ?thesis by auto
  qed
  then show ?thesis
    by (simp add: listed_GET [OF a] list_all_iff format_sale_ids)
qed

lemma GET_other_sales:
  assumes n: "\<not> is_admin user" and a: "authenticateUser d t = Inr user"
    and f: "filter (\<lambda>s. attendant_id s = u_id user) ss =
            filter (\<lambda>s. attendant_id s = u_id user) (sales d)"
  shows "GET (d\<lparr>sales := ss\<rparr>) t = GET d t"
proof -
  have "authenticateUser (d\<lparr>sales := ss\<rparr>) t = Inr user"
    using a by (cases t) (simp_all add: authenticateUser_def)
  moreover have "select_sales (d\<lparr>sales := ss\<rparr>) user = select_sales d user"
    using n f by (simp add: select_sales_fst)
  ultimately show ?thesis
    using a by (simp add: GET_def)
qed

text \<open>
  C10. An authenticated \<^verbatim>\<open>GET\<close> is answered with 200. With the foreign keys of the sales in
  place, an administrator is sent every sale and any other caller exactly the sales whose
  attendant is the caller, both by decreasing date. Every sale sent to a caller who is not an
  administrator has the caller as attendant, and the answer does not change when the table
  of sales is replaced by one with the same sales of the caller: the sales of other
  attendants have no effect on it.
\<close>

theorem list_sales_visibility:
  "authenticateUser d t = Inr user \<longrightarrow>
     fst (GET d t) = 200
     \<and> (is_admin user \<longrightarrow> ref_ok d \<longrightarrow>
          map f_id (listed (GET d t)) = map s_id (sort_key (\<lambda>s. - sale_date s) (sales d)))
     \<and> (\<not> is_admin user \<longrightarrow> ref_ok d \<longrightarrow>
          map f_id (listed (GET d t)) =
            map s_id (sort_key (\<lambda>s. - sale_date s)
              (filter (\<lambda>s. attendant_id s = u_id user) (sales d))))
     \<and> (\<not> is_admin user \<longrightarrow>
          list_all (\<lambda>f. f_attendantId f = u_id user) (listed (GET d t)))
     \<and> (\<not> is_admin user \<longrightarrow>
          filter (\<lambda>s. attendant_id s = u_id user) ss =
            filter (\<lambda>s. attendant_id s = u_id user) (sales d) \<longrightarrow>
          GET (d\<lparr>sales := ss\<rparr>) t = GET d t)"
proof (intro impI conjI)
  assume a: "authenticateUser d t = Inr user"
  then show "fst (GET d t) = 200" by (simp add: GET_def)
  show "map f_id (listed (GET d t)) = map s_id (sort_key (\<lambda>s. - sale_date s) (sales d))"
    if "is_admin user" "ref_ok d"
    using listed_ids [OF a that(2)] that(1) by simp
  show "map f_id (listed (GET d t)) =
            map s_id (sort_key (\<lambda>s. - sale_date s)
              (filter (\<lambda>s. attendant_id s = u_id user) (sales d)))"
    if "\<not> is_admin user" "ref_ok d"
    using listed_ids [OF a that(2)] that(1) by simp
  show "list_all (\<lambda>f. f_attendantId f = u_id user) (listed (GET d t))" if "\<not> is_admin user"
    using a that by (rule listed_own)
  show "GET (d\<lparr>sales := ss\<rparr>) t = GET d t"
    if "\<not> is_admin user" "filter (\<lambda>s. attendant_id s = u_id user) ss =
            filter (\<lambda>s. attendant_id s = u_id user) (sales d)"
    using that(1) a that(2) by (rule GET_other_sales)
qed

lemma demo_ref_ok: "ref_ok demo_db"
  by (simp add: ref_ok_def demo_db_def)

lemma demo_sales_dates:
  "map s_id (sort_key (\<lambda>s. - sale_date s) (sales demo_db)) = [21, 20]"
  "map s_id (sort_key (\<lambda>s. - sale_date s)
     (filter (\<lambda>s. attendant_id s = 2) (sales demo_db))) = [20]"
  "filter (\<lambda>s. attendant_id s = 2) (butlast (sales demo_db)) =
     filter (\<lambda>s. attendant_id s = 2) (sales demo_db)"
  by (simp_all add: demo_db_def)

theorem list_sales_visibility_witness:
  "ref_ok demo_db
   \<and> fst (GET demo_db (Decoded 1)) = 200
   \<and> map f_id (listed (GET demo_db (Decoded 1))) = [21, 20]
   \<and> map f_id (listed (GET demo_db (Decoded 2))) = [20]
   \<and> list_all (\<lambda>f. f_attendantId f = 2) (listed (GET demo_db (Decoded 2)))
   \<and> map s_id (butlast (sales demo_db)) = [20]
   \<and> GET (demo_db\<lparr>sales := butlast (sales demo_db)\<rparr>) (Decoded 2) = GET demo_db (Decoded 2)"
proof -
  note admin = list_sales_visibility [rule_format, OF demo_auth(1)]
  note other = list_sales_visibility [rule_format, OF demo_auth(2)]
  have "map f_id (listed (GET demo_db (Decoded 1))) = [21, 20]"
    using admin [THEN conjunct2, THEN conjunct1, rule_format, OF _ demo_ref_ok]
    by (simp add: demo_sales_dates)
  moreover
  have "map f_id (listed (GET demo_db (Decoded 2))) = [20]"
    using other [THEN conjunct2, THEN conjunct2, THEN conjunct1, rule_format, OF _ demo_ref_ok]
    by (simp add: demo_sales_dates)
  moreover
  have "list_all (\<lambda>f. f_attendantId f = 2) (listed (GET demo_db (Decoded 2)))"
    using other [THEN conjunct2, THEN conjunct2, THEN conjunct2, THEN conjunct1, rule_format]
    by simp
  moreover
  have "GET (demo_db\<lparr>sales := butlast (sales demo_db)\<rparr>) (Decoded 2) = GET demo_db (Decoded 2)"
    by (rule other [THEN conjunct2, THEN conjunct2, THEN conjunct2, THEN conjunct2, rule_format])
      (simp_all add: demo_sales_dates)
  moreover have "map s_id (butlast (sales demo_db)) = [20]"
    by (simp add: demo_db_def)
  ultimately show ?thesis
    using admin [THEN conjunct1] demo_ref_ok by (intro conjI)
qed

end
